theory Spec2Isabelle
  imports Complex_Main "HOL-Library.Char_ord" "HOL-Library.List_Lexorder" "HOL-Library.Multiset"
begin

section \<open>Python values\<close>

text \<open>
  The journey graph of \<^verbatim>\<open>src/retrieval.py\<close> is a networkx \<^verbatim>\<open>DiGraph\<close> whose nodes
  and edges carry attribute dictionaries with string keys and dynamically typed values.
  The values that occur are \<^verbatim>\<open>None\<close>, booleans, integers, floats and strings. A string is
  the list of its UTF-8 bytes (equality and the order of strings are those of Python's code
  points). A float is the rational number it denotes, and \<open>PNegZero\<close> is the float
  \<^verbatim>\<open>-0.0\<close>; the infinities and NaN are outside the model.
\<close>

datatype pyval = PNone | PBool bool | PInt int | PFloat rat | PNegZero | PStr string

datatype py_error = TypeError | KeyError | ValueError

type_synonym 'a result = "py_error + 'a"

text \<open>Python's numeric tower: \<^verbatim>\<open>True == 1 == 1.0\<close>.\<close>

fun py_num :: "pyval \<Rightarrow> rat option" where
  "py_num (PBool b) = Some (if b then 1 else 0)"
| "py_num (PInt i) = Some (of_int i)"
| "py_num (PFloat r) = Some r"
| "py_num PNegZero = Some 0"
| "py_num PNone = None"
| "py_num (PStr s) = None"

fun is_str :: "pyval \<Rightarrow> bool" where
  "is_str (PStr s) = True"
| "is_str v = False"

fun str_of :: "pyval \<Rightarrow> string" where
  "str_of (PStr s) = s"
| "str_of v = []"

definition num_of :: "pyval \<Rightarrow> rat" where
  "num_of v = (case py_num v of Some r \<Rightarrow> r | None \<Rightarrow> 0)"

text \<open>\<^verbatim>\<open>a == b\<close>: numbers compare by value, everything else structurally.\<close>

definition py_eq :: "pyval \<Rightarrow> pyval \<Rightarrow> bool" where
  "py_eq a b =
     (case (py_num a, py_num b) of
        (Some x, Some y) \<Rightarrow> x = y
      | (None, None) \<Rightarrow> a = b
      | _ \<Rightarrow> False)"

text \<open>Truthiness, as tested by \<^verbatim>\<open>if v:\<close>.\<close>

fun py_truthy :: "pyval \<Rightarrow> bool" where
  "py_truthy PNone = False"
| "py_truthy (PBool b) = b"
| "py_truthy (PInt i) = (i \<noteq> 0)"
| "py_truthy (PFloat r) = (r \<noteq> 0)"
| "py_truthy PNegZero = False"
| "py_truthy (PStr s) = (s \<noteq> [])"

subsection \<open>Text of a value\<close>

definition digit_char :: "nat \<Rightarrow> char" where
  "digit_char d = char_of (48 + d)"

fun show_nat :: "nat \<Rightarrow> string" where
  "show_nat n = (if n < 10 then [digit_char n] else show_nat (n div 10) @ [digit_char (n mod 10)])"

declare show_nat.simps [simp del]

definition show_int :: "int \<Rightarrow> string" where
  "show_int i = (if i < 0 then CHR ''-'' # show_nat (nat (- i)) else show_nat (nat i))"

text \<open>
  \<^verbatim>\<open>str(v)\<close>, as an f-string field \<^verbatim>\<open>{v}\<close> renders it. The shortest round-trip text of a
  float is a function of the interpreter, taken here as the parameter \<open>fr\<close>.
\<close>

fun py_str :: "(rat \<Rightarrow> string) \<Rightarrow> pyval \<Rightarrow> string" where
  "py_str fr PNone = ''None''"
| "py_str fr (PBool b) = (if b then ''True'' else ''False'')"
| "py_str fr (PInt i) = show_int i"
| "py_str fr (PFloat r) = fr r"
| "py_str fr PNegZero = ''-0.0''"
| "py_str fr (PStr s) = s"

text \<open>\<^verbatim>\<open>sep.join(xs)\<close> builds the text left to right.\<close>

fun py_join :: "string \<Rightarrow> string list \<Rightarrow> string" where
  "py_join sep [] = []"
| "py_join sep (x # xs) = foldl (\<lambda>acc y. acc @ sep @ y) x xs"

text \<open>A loop body that may raise: the first error ends the loop.\<close>

fun collect :: "'a result list \<Rightarrow> 'a list result" where
  "collect [] = Inr []"
| "collect (Inl e # rs) = Inl e"
| "collect (Inr x # rs) = (case collect rs of Inl e \<Rightarrow> Inl e | Inr xs \<Rightarrow> Inr (x # xs))"

definition rbind :: "'a result \<Rightarrow> ('a \<Rightarrow> 'b result) \<Rightarrow> 'b result" where
  "rbind r f = (case r of Inl e \<Rightarrow> Inl e | Inr x \<Rightarrow> f x)"

text \<open>The slice \<^verbatim>\<open>xs[:n]\<close>; a negative \<open>n\<close> counts from the end.\<close>

definition py_take :: "int \<Rightarrow> 'a list \<Rightarrow> 'a list" where
  "py_take n xs = (if 0 \<le> n then take (nat n) xs else take (length xs - nat (- n)) xs)"

section \<open>The graph store\<close>

text \<open>
  A \<^verbatim>\<open>DiGraph\<close> keeps its nodes in a dictionary in insertion order (\<open>nodes_of\<close>), and for
  each node the successors and the predecessors in the order their edges were added.
  \<^verbatim>\<open>G.nodes[n]\<close> is \<open>node_attrs\<close>, \<^verbatim>\<open>G.edges[u, v]\<close> is \<open>edge_of\<close>. networkx keeps both ends of
  every edge in the node dictionary, so the lookups that the retrieval code makes on
  neighbours never raise; the model gives an absent node no attributes and an absent edge
  no attributes.
\<close>

type_synonym node = string
type_synonym attrs = "string \<rightharpoonup> pyval"

record graph =
  nodes_of :: "(node \<times> attrs) list"
  succ_of :: "node \<Rightarrow> node list"
  pred_of :: "node \<Rightarrow> node list"
  edge_of :: "node \<Rightarrow> node \<Rightarrow> attrs"

definition empty_graph :: graph where
  "empty_graph = \<lparr>nodes_of = [], succ_of = (\<lambda>n. []), pred_of = (\<lambda>n. []), edge_of = (\<lambda>u v. Map.empty)\<rparr>"

definition has_node :: "graph \<Rightarrow> node \<Rightarrow> bool" where
  "has_node G n = (map_of (nodes_of G) n \<noteq> None)"

definition node_attrs :: "graph \<Rightarrow> node \<Rightarrow> attrs" where
  "node_attrs G n = (case map_of (nodes_of G) n of Some a \<Rightarrow> a | None \<Rightarrow> Map.empty)"

text \<open>\<^verbatim>\<open>d.get(k)\<close> and \<^verbatim>\<open>d.get(k, default)\<close>.\<close>

definition dget :: "attrs \<Rightarrow> string \<Rightarrow> pyval" where
  "dget d k = (case d k of Some v \<Rightarrow> v | None \<Rightarrow> PNone)"

definition dget_default :: "attrs \<Rightarrow> string \<Rightarrow> pyval \<Rightarrow> pyval" where
  "dget_default d k v0 = (case d k of Some v \<Rightarrow> v | None \<Rightarrow> v0)"

definition node_get :: "graph \<Rightarrow> node \<Rightarrow> string \<Rightarrow> pyval" where
  "node_get G n k = dget (node_attrs G n) k"

definition has_type :: "graph \<Rightarrow> string \<Rightarrow> node \<Rightarrow> bool" where
  "has_type G ty n = py_eq (node_get G n ''node_type'') (PStr ty)"

text \<open>
  \<^verbatim>\<open>G.add_node(n, **a)\<close> and \<^verbatim>\<open>G.add_edge(u, v, **a)\<close>, with which the ingestion code and
  the tests build a graph.
\<close>

fun upd_node :: "node \<Rightarrow> attrs \<Rightarrow> (node \<times> attrs) list \<Rightarrow> (node \<times> attrs) list" where
  "upd_node n a [] = [(n, a)]"
| "upd_node n a ((m, b) # ns) = (if m = n then (m, b ++ a) # ns else (m, b) # upd_node n a ns)"

definition add_node :: "node \<Rightarrow> attrs \<Rightarrow> graph \<Rightarrow> graph" where
  "add_node n a G = G\<lparr>nodes_of := upd_node n a (nodes_of G)\<rparr>"

definition add_edge :: "node \<Rightarrow> node \<Rightarrow> attrs \<Rightarrow> graph \<Rightarrow> graph" where
  "add_edge u v a G =
     (let ns = upd_node v Map.empty (upd_node u Map.empty (nodes_of G)) in
      if v \<in> set (succ_of G u)
      then G\<lparr>nodes_of := ns, edge_of := (edge_of G)(u := (edge_of G u)(v := edge_of G u v ++ a))\<rparr>
      else G\<lparr>nodes_of := ns,
             succ_of := (succ_of G)(u := succ_of G u @ [v]),
             pred_of := (pred_of G)(v := pred_of G v @ [u]),
             edge_of := (edge_of G)(u := (edge_of G u)(v := a))\<rparr>)"

section \<open>User journey extraction\<close>

record event =
  ev_id :: pyval
  ev_type :: pyval
  ev_timestamp :: pyval
  ev_page_url :: pyval
  ev_products :: "attrs list"

record journey =
  j_session_id :: pyval
  j_start_time :: pyval
  j_event_count :: nat
  j_events :: "event list"

record user_context =
  uc_user_id :: pyval
  uc_segment :: pyval
  uc_ltv :: pyval
  uc_churned :: pyval

text \<open>
  \<^verbatim>\<open>events.sort(key=lambda x: x["timestamp"])\<close>: a stable sort on the keys. Python orders
  numbers among themselves and strings among themselves; every other comparison raises
  \<^verbatim>\<open>TypeError\<close>, and a list of two or more elements is never sorted without comparing.
\<close>

definition sort_by_timestamp :: "event list \<Rightarrow> event list result" where
  "sort_by_timestamp evs =
     (if length evs \<le> 1 then Inr evs
      else if \<forall>e \<in> set evs. py_num (ev_timestamp e) \<noteq> None
        then Inr (sort_key (\<lambda>e. num_of (ev_timestamp e)) evs)
      else if \<forall>e \<in> set evs. is_str (ev_timestamp e)
        then Inr (sort_key (\<lambda>e. str_of (ev_timestamp e)) evs)
      else Inl TypeError)"

definition event_view :: "graph \<Rightarrow> node \<Rightarrow> event" where
  "event_view G n =
     \<lparr>ev_id = node_get G n ''event_id'',
      ev_type = node_get G n ''event_type'',
      ev_timestamp = node_get G n ''timestamp'',
      ev_page_url = node_get G n ''page_url'',
      ev_products = map (node_attrs G) (filter (has_type G ''Product'') (succ_of G n))\<rparr>"

definition session_events :: "graph \<Rightarrow> node \<Rightarrow> event list" where
  "session_events G s = map (event_view G) (filter (has_type G ''Event'') (succ_of G s))"

definition session_journey :: "graph \<Rightarrow> node \<Rightarrow> journey result" where
  "session_journey G s =
     (case sort_by_timestamp (session_events G s) of
        Inl e \<Rightarrow> Inl e
      | Inr evs \<Rightarrow>
          Inr \<lparr>j_session_id = node_get G s ''session_id'',
               j_start_time = node_get G s ''start_time'',
               j_event_count = length evs,
               j_events = evs\<rparr>)"

definition user_node :: "(rat \<Rightarrow> string) \<Rightarrow> pyval \<Rightarrow> node" where
  "user_node fr user_id = ''user_'' @ py_str fr user_id"

definition extract_user_journeys ::
  "(rat \<Rightarrow> string) \<Rightarrow> graph \<Rightarrow> pyval \<Rightarrow> int \<Rightarrow> journey list result" where
  "extract_user_journeys fr G user_id max_sessions =
     (if \<not> has_node G (user_node fr user_id) then Inr []
      else
        let sessions = filter (has_type G ''Session'') (succ_of G (user_node fr user_id))
        in collect (map (session_journey G) (py_take max_sessions sessions)))"

definition get_user_context :: "(rat \<Rightarrow> string) \<Rightarrow> graph \<Rightarrow> pyval \<Rightarrow> user_context option" where
  "get_user_context fr G user_id =
     (if \<not> has_node G (user_node fr user_id) then None
      else
        let data = node_attrs G (user_node fr user_id)
        in Some \<lparr>uc_user_id = user_id,
                 uc_segment = dget data ''segment'',
                 uc_ltv = dget data ''ltv'',
                 uc_churned = dget data ''churned''\<rparr>)"

section \<open>Path pattern analysis\<close>

text \<open>The separator \<^verbatim>\<open>" -> "\<close> of the source is a space, the arrow U+2192 and a space.\<close>

definition arrow_sep :: string where
  "arrow_sep = [CHR 0x20, CHR 0xE2, CHR 0x86, CHR 0x92, CHR 0x20]"

text \<open>\<^verbatim>\<open>str.join\<close> raises \<^verbatim>\<open>TypeError\<close> on an item that is not a string.\<close>

definition join_values :: "string \<Rightarrow> pyval list \<Rightarrow> string result" where
  "join_values sep vs =
     (if \<forall>v \<in> set vs. is_str v then Inr (py_join sep (map str_of vs)) else Inl TypeError)"

definition extract_journey_pattern :: "event list \<Rightarrow> string result" where
  "extract_journey_pattern events = join_values arrow_sep (map ev_type events)"

definition has_next :: "graph \<Rightarrow> node \<Rightarrow> bool" where
  "has_next G n =
     (\<exists>s \<in> set (succ_of G n). py_eq (dget (edge_of G n s) ''edge_type'') (PStr ''NEXT''))"

text \<open>
  The loop of \<open>find_sessions_by_outcome\<close> over \<^verbatim>\<open>G.nodes(data=True)\<close>. The two
  \<^verbatim>\<open>continue\<close> statements skip the test of the limit, which comes last in the body.
\<close>

fun scan_outcome ::
  "graph \<Rightarrow> string \<Rightarrow> int \<Rightarrow> (node \<times> attrs) list \<Rightarrow> node list \<Rightarrow> node list" where
  "scan_outcome G outcome limit [] matching = matching"
| "scan_outcome G outcome limit ((n, data) # rest) matching =
     (if \<not> py_eq (dget data ''node_type'') (PStr ''Event'')
        then scan_outcome G outcome limit rest matching
      else if \<not> py_eq (dget data ''event_type'') (PStr outcome)
        then scan_outcome G outcome limit rest matching
      else
        let matching' =
              (if has_next G n then matching
               else case find (has_type G ''Session'') (pred_of G n) of
                      Some s \<Rightarrow> matching @ [s]
                    | None \<Rightarrow> matching)
        in if limit \<le> int (length matching') then matching'
           else scan_outcome G outcome limit rest matching')"

definition find_sessions_by_outcome :: "graph \<Rightarrow> string \<Rightarrow> int \<Rightarrow> node list" where
  "find_sessions_by_outcome G outcome limit = scan_outcome G outcome limit (nodes_of G) []"

record path =
  p_user_id :: pyval
  p_user_context :: "user_context option"
  p_journey :: journey

text \<open>
  The body of the loop of \<open>find_conversion_paths\<close> for one session: no path or one.
  \<^verbatim>\<open>if user_node:\<close> is false for no node and for the node with the empty name.
\<close>

definition session_user :: "graph \<Rightarrow> node \<Rightarrow> node option" where
  "session_user G s =
     (case find (has_type G ''User'') (pred_of G s) of
        Some u \<Rightarrow> if u = [] then None else Some u
      | None \<Rightarrow> None)"

definition matching_path ::
  "(rat \<Rightarrow> string) \<Rightarrow> graph \<Rightarrow> node \<Rightarrow> pyval \<Rightarrow> user_context option \<Rightarrow> path list result" where
  "matching_path fr G s user_id ctx =
     (case extract_user_journeys fr G user_id 1 of
        Inl e \<Rightarrow> Inl e
      | Inr journeys \<Rightarrow>
          (case find (\<lambda>j. py_eq (j_session_id j) (node_get G s ''session_id'')) journeys of
             Some j \<Rightarrow> Inr [\<lparr>p_user_id = user_id, p_user_context = ctx, p_journey = j\<rparr>]
           | None \<Rightarrow> Inr []))"

definition conversion_path :: "(rat \<Rightarrow> string) \<Rightarrow> graph \<Rightarrow> node \<Rightarrow> path list result" where
  "conversion_path fr G s =
     (case session_user G s of
        None \<Rightarrow> Inr []
      | Some u \<Rightarrow>
          let user_id = node_get G u ''user_id''
          in matching_path fr G s user_id (get_user_context fr G user_id))"

definition find_conversion_paths :: "(rat \<Rightarrow> string) \<Rightarrow> graph \<Rightarrow> int \<Rightarrow> path list result" where
  "find_conversion_paths fr G limit =
     map_sum id concat
       (collect (map (conversion_path fr G) (find_sessions_by_outcome G ''purchase'' limit)))"

definition churn_path :: "(rat \<Rightarrow> string) \<Rightarrow> graph \<Rightarrow> node \<Rightarrow> path list result" where
  "churn_path fr G s =
     (case session_user G s of
        None \<Rightarrow> Inr []
      | Some u \<Rightarrow>
          let user_id = node_get G u ''user_id''
          in (case get_user_context fr G user_id of
                None \<Rightarrow> Inr []
              | Some ctx \<Rightarrow>
                  (if py_truthy (uc_churned ctx) then matching_path fr G s user_id (Some ctx)
                   else Inr [])))"

definition find_churn_paths :: "(rat \<Rightarrow> string) \<Rightarrow> graph \<Rightarrow> int \<Rightarrow> path list result" where
  "find_churn_paths fr G limit =
     map_sum id concat
       (collect (map (churn_path fr G) (find_sessions_by_outcome G ''exit'' limit)))"

subsection \<open>Counters\<close>

text \<open>
  A \<^verbatim>\<open>Counter\<close> keeps its keys in the order they were first counted. Keys are compared
  with \<^verbatim>\<open>==\<close>. \<^verbatim>\<open>most_common(n)\<close> is the first \<open>n\<close> entries of the stable sort by
  descending count.
\<close>

type_synonym 'k counter = "('k \<times> nat) list"

fun counter_incr :: "('k \<Rightarrow> 'k \<Rightarrow> bool) \<Rightarrow> 'k \<Rightarrow> 'k counter \<Rightarrow> 'k counter" where
  "counter_incr eq k [] = [(k, 1)]"
| "counter_incr eq k ((k', c) # rest) =
     (if eq k' k then (k', Suc c) # rest else (k', c) # counter_incr eq k rest)"

definition counter_total :: "'k counter \<Rightarrow> nat" where
  "counter_total c = sum_list (map snd c)"

definition most_common :: "nat \<Rightarrow> 'k counter \<Rightarrow> 'k counter" where
  "most_common n c = take n (sort_key (\<lambda>(k, cnt). - int cnt) c)"

section \<open>Floating-point arithmetic\<close>

text \<open>
  A Python float is an IEEE 754 binary64 number. Every operation returns the exact result
  rounded to the nearest representable number, ties to the even significand: \<open>fl64\<close>.
  Results beyond the largest finite number are outside the model.
\<close>

definition rhe :: "rat \<Rightarrow> int" where
  "rhe x =
     (let f = \<lfloor>x\<rfloor>; d = x - of_int f
      in if d < 1 / 2 then f else if 1 / 2 < d then f + 1 else if even f then f else f + 1)"

fun ilog2 :: "nat \<Rightarrow> nat" where
  "ilog2 n = (if n < 2 then 0 else Suc (ilog2 (n div 2)))"

declare ilog2.simps [simp del]

definition floor_log2 :: "rat \<Rightarrow> int" where
  "floor_log2 x =
     (if 1 \<le> x then int (ilog2 (nat \<lfloor>x\<rfloor>))
      else let n = nat \<lceil>1 / x\<rceil> in - int (if n \<le> 1 then 0 else Suc (ilog2 (n - 1))))"

definition pow2 :: "int \<Rightarrow> rat" where
  "pow2 e = (if 0 \<le> e then 2 ^ nat e else 1 / 2 ^ nat (- e))"

definition fl64 :: "rat \<Rightarrow> rat" where
  "fl64 x =
     (if x = 0 then 0
      else let e = max (floor_log2 \<bar>x\<bar> - 52) (- 1074)
           in sgn x * of_int (rhe (\<bar>x\<bar> / pow2 e)) * pow2 e)"

text \<open>
  The float of a number, \<^verbatim>\<open>float(v)\<close>, as its sign bit and its value. The sign bit
  tells the two zeros apart.
\<close>

fun py_float :: "pyval \<Rightarrow> (bool \<times> rat) option" where
  "py_float (PFloat r) = Some (r < 0, r)"
| "py_float PNegZero = Some (True, 0)"
| "py_float (PInt i) = Some (i < 0, fl64 (of_int i))"
| "py_float (PBool b) = Some (False, if b then 1 else 0)"
| "py_float v = None"

definition float_val :: "bool \<Rightarrow> rat \<Rightarrow> pyval" where
  "float_val neg r = (if r = 0 \<and> neg then PNegZero else PFloat r)"

fun py_int :: "pyval \<Rightarrow> int option" where
  "py_int (PInt i) = Some i"
| "py_int (PBool b) = Some (if b then 1 else 0)"
| "py_int v = None"

text \<open>
  \<^verbatim>\<open>a + b\<close>, \<^verbatim>\<open>a - b\<close> and \<^verbatim>\<open>a * b\<close> on numbers: exact on integers, rounded once an
  operand is a float. A sum that is exactly zero is \<^verbatim>\<open>-0.0\<close> only when both terms are
  negative zeros; a product has the sign of its factors.
\<close>

definition float_add :: "bool \<times> rat \<Rightarrow> bool \<times> rat \<Rightarrow> pyval" where
  "float_add x y =
     float_val (if snd x + snd y = 0 then fst x \<and> fst y else snd x + snd y < 0)
       (fl64 (snd x + snd y))"

definition float_sub :: "bool \<times> rat \<Rightarrow> bool \<times> rat \<Rightarrow> pyval" where
  "float_sub x y = float_add x (\<not> fst y, - snd y)"

definition float_mul :: "bool \<times> rat \<Rightarrow> bool \<times> rat \<Rightarrow> pyval" where
  "float_mul x y = float_val (fst x \<noteq> fst y) (fl64 (snd x * snd y))"

definition py_arith ::
  "(int \<Rightarrow> int \<Rightarrow> int) \<Rightarrow> (bool \<times> rat \<Rightarrow> bool \<times> rat \<Rightarrow> pyval) \<Rightarrow> pyval \<Rightarrow> pyval \<Rightarrow> pyval result" where
  "py_arith iop fop a b =
     (case (py_int a, py_int b) of
        (Some i, Some j) \<Rightarrow> Inr (PInt (iop i j))
      | _ \<Rightarrow>
          (case (py_float a, py_float b) of
             (Some x, Some y) \<Rightarrow> Inr (fop x y)
           | _ \<Rightarrow> Inl TypeError))"

definition py_add :: "pyval \<Rightarrow> pyval \<Rightarrow> pyval result" where
  "py_add = py_arith (+) float_add"

definition py_sub :: "pyval \<Rightarrow> pyval \<Rightarrow> pyval result" where
  "py_sub = py_arith (-) float_sub"

definition py_mul :: "pyval \<Rightarrow> pyval \<Rightarrow> pyval result" where
  "py_mul = py_arith (*) float_mul"

text \<open>
  \<^verbatim>\<open>a / b\<close> for a divisor that the source has tested to be a positive length: the
  quotient of two integers is rounded once.
\<close>

definition py_truediv :: "pyval \<Rightarrow> nat \<Rightarrow> pyval result" where
  "py_truediv a n =
     (case py_int a of
        Some i \<Rightarrow> Inr (float_val (i < 0) (fl64 (of_int i / of_nat n)))
      | None \<Rightarrow>
          (case py_float a of
             Some x \<Rightarrow> Inr (float_val (fst x) (fl64 (snd x / fl64 (of_nat n))))
           | None \<Rightarrow> Inl TypeError))"

text \<open>
  \<^verbatim>\<open>round(v, ndigits)\<close> for \<open>ndigits \<ge> 0\<close>: an integer is returned as it is, a float is
  rounded half to even at that decimal place and the decimal is converted back to a float,
  with the sign of the float.
\<close>

fun py_round :: "nat \<Rightarrow> pyval \<Rightarrow> pyval result" where
  "py_round nd (PInt i) = Inr (PInt i)"
| "py_round nd (PBool b) = Inr (PInt (if b then 1 else 0))"
| "py_round nd (PFloat r) = Inr (float_val (r < 0) (fl64 (of_int (rhe (r * 10 ^ nd)) / 10 ^ nd)))"
| "py_round nd PNegZero = Inr PNegZero"
| "py_round nd v = Inl TypeError"

section \<open>Common patterns\<close>

text \<open>A \<^verbatim>\<open>user_filter\<close> dictionary is the list of its items; \<^verbatim>\<open>None\<close> is the empty list.\<close>

type_synonym user_filter = "(string \<times> pyval) list"

definition filter_match :: "user_filter \<Rightarrow> attrs \<Rightarrow> bool" where
  "filter_match uf data = (\<forall>(key, val) \<in> set uf. py_eq (dget data key) val)"

text \<open>The inner loop of \<open>find_common_patterns\<close> over the journeys of one user.\<close>

fun tally_journeys ::
  "int \<Rightarrow> journey list \<Rightarrow> string counter \<times> int \<Rightarrow> (string counter \<times> int) result" where
  "tally_journeys limit [] st = Inr st"
| "tally_journeys limit (j # js) (pattern_counts, sessions_analyzed) =
     (if limit \<le> sessions_analyzed then Inr (pattern_counts, sessions_analyzed)
      else case extract_journey_pattern (j_events j) of
             Inl e \<Rightarrow> Inl e
           | Inr pattern \<Rightarrow>
               tally_journeys limit js
                 (counter_incr (=) pattern pattern_counts, sessions_analyzed + 1))"

text \<open>The outer loop over \<^verbatim>\<open>G.nodes(data=True)\<close>.\<close>

fun tally_users ::
  "(rat \<Rightarrow> string) \<Rightarrow> graph \<Rightarrow> user_filter \<Rightarrow> int \<Rightarrow> (node \<times> attrs) list \<Rightarrow>
   string counter \<times> int \<Rightarrow> (string counter \<times> int) result" where
  "tally_users fr G uf limit [] st = Inr st"
| "tally_users fr G uf limit ((n, data) # rest) st =
     (if \<not> py_eq (dget data ''node_type'') (PStr ''User'') then tally_users fr G uf limit rest st
      else if uf \<noteq> [] \<and> \<not> filter_match uf data then tally_users fr G uf limit rest st
      else case extract_user_journeys fr G (dget data ''user_id'') 5 of
             Inl e \<Rightarrow> Inl e
           | Inr journeys \<Rightarrow>
               (case tally_journeys limit journeys st of
                  Inl e \<Rightarrow> Inl e
                | Inr st' \<Rightarrow>
                    if limit \<le> snd st' then Inr st' else tally_users fr G uf limit rest st'))"

definition pattern_counts :: "(rat \<Rightarrow> string) \<Rightarrow> graph \<Rightarrow> user_filter \<Rightarrow> int \<Rightarrow> string counter result" where
  "pattern_counts fr G uf limit = map_sum id fst (tally_users fr G uf limit (nodes_of G) ([], 0))"

text \<open>\<^verbatim>\<open>count / total * 100 if total > 0 else 0\<close>.\<close>

definition percentage :: "nat \<Rightarrow> nat \<Rightarrow> pyval" where
  "percentage cnt tot =
     (if 0 < tot then PFloat (fl64 (fl64 (of_nat cnt / of_nat tot) * 100)) else PInt 0)"

definition ranked :: "string counter \<Rightarrow> (string \<times> nat \<times> pyval) list" where
  "ranked pc = map (\<lambda>(pattern, cnt). (pattern, cnt, percentage cnt (counter_total pc)))
                   (most_common 10 pc)"

definition find_common_patterns ::
  "(rat \<Rightarrow> string) \<Rightarrow> graph \<Rightarrow> user_filter \<Rightarrow> int \<Rightarrow> (string \<times> nat \<times> pyval) list result" where
  "find_common_patterns fr G uf limit = map_sum id ranked (pattern_counts fr G uf limit)"

section \<open>Cohort comparison\<close>

record cohort_acc =
  users :: "attrs list"
  sessions :: "journey list"
  purchase_count :: nat
  cart_add_count :: nat

definition count_type :: "string \<Rightarrow> journey list \<Rightarrow> nat" where
  "count_type ty js = length (filter (\<lambda>e. py_eq (ev_type e) (PStr ty)) (concat (map j_events js)))"

text \<open>The loop of \<open>analyze_cohort\<close> over \<^verbatim>\<open>G.nodes(data=True)\<close>.\<close>

fun scan_cohort ::
  "(rat \<Rightarrow> string) \<Rightarrow> graph \<Rightarrow> user_filter \<Rightarrow> int \<Rightarrow> (node \<times> attrs) list \<Rightarrow>
   cohort_acc \<Rightarrow> cohort_acc result" where
  "scan_cohort fr G uf sample_size [] acc = Inr acc"
| "scan_cohort fr G uf sample_size ((n, data) # rest) acc =
     (if \<not> py_eq (dget data ''node_type'') (PStr ''User'')
        then scan_cohort fr G uf sample_size rest acc
      else if \<not> filter_match uf data then scan_cohort fr G uf sample_size rest acc
      else case extract_user_journeys fr G (dget data ''user_id'') 3 of
             Inl e \<Rightarrow> Inl e
           | Inr journeys \<Rightarrow>
               let acc' = \<lparr>users = users acc @ [data],
                           sessions = sessions acc @ journeys,
                           purchase_count = purchase_count acc + count_type ''purchase'' journeys,
                           cart_add_count = cart_add_count acc + count_type ''add_to_cart'' journeys\<rparr>
               in if sample_size \<le> int (length (sessions acc')) then Inr acc'
                  else scan_cohort fr G uf sample_size rest acc')"

text \<open>
  \<^verbatim>\<open>sum(u["ltv"] for u in users)\<close>: the sum starts at the integer 0 and adds from the
  left; a user without the key raises \<^verbatim>\<open>KeyError\<close>, a value that is no number
  \<^verbatim>\<open>TypeError\<close>. (From Python 3.12 on the float additions of \<^verbatim>\<open>sum\<close> are compensated;
  the two agree on a single float.)
\<close>

fun sum_ltv :: "pyval \<Rightarrow> attrs list \<Rightarrow> pyval result" where
  "sum_ltv acc [] = Inr acc"
| "sum_ltv acc (u # us) =
     (case u ''ltv'' of
        None \<Rightarrow> Inl KeyError
      | Some v \<Rightarrow> rbind (py_add acc v) (\<lambda>acc'. sum_ltv acc' us))"

record cohort_stats =
  user_count :: nat
  session_count :: nat
  avg_events_per_session :: pyval
  avg_ltv :: pyval
  purchase_events :: nat
  cart_add_events :: nat
  conversion_rate :: pyval

definition mean_count :: "nat list \<Rightarrow> pyval result" where
  "mean_count cs =
     (if cs \<noteq> [] then py_truediv (PInt (int (sum_list cs))) (length cs) else Inr (PInt 0))"

definition cohort_summary :: "cohort_acc \<Rightarrow> cohort_stats result" where
  "cohort_summary acc =
     rbind (mean_count (map j_event_count (sessions acc))) (\<lambda>avg_events.
     rbind (if users acc \<noteq> []
            then rbind (sum_ltv (PInt 0) (users acc)) (\<lambda>s. py_truediv s (length (users acc)))
            else Inr (PInt 0)) (\<lambda>avg_ltv'.
     rbind (py_round 2 avg_events) (\<lambda>r_events.
     rbind (py_round 2 avg_ltv') (\<lambda>r_ltv.
     rbind (if sessions acc \<noteq> []
            then rbind (py_truediv (PInt (int (purchase_count acc))) (length (sessions acc)))
                       (\<lambda>q. rbind (py_mul q (PInt 100)) (py_round 1))
            else py_round 1 (PInt 0)) (\<lambda>r_conv.
     Inr \<lparr>user_count = length (users acc),
          session_count = length (sessions acc),
          avg_events_per_session = r_events,
          avg_ltv = r_ltv,
          purchase_events = purchase_count acc,
          cart_add_events = cart_add_count acc,
          conversion_rate = r_conv\<rparr>)))))"

definition analyze_cohort ::
  "(rat \<Rightarrow> string) \<Rightarrow> graph \<Rightarrow> user_filter \<Rightarrow> int \<Rightarrow> cohort_stats result" where
  "analyze_cohort fr G uf sample_size =
     rbind (scan_cohort fr G uf sample_size (nodes_of G)
              \<lparr>users = [], sessions = [], purchase_count = 0, cart_add_count = 0\<rparr>)
           cohort_summary"

text \<open>
  The result dictionaries. A dictionary literal keeps its keys in the order written; a key
  written twice keeps its first place and its last value.
\<close>

type_synonym 'v pydict = "(string \<times> 'v) list"

fun dict_set :: "string \<Rightarrow> 'v \<Rightarrow> 'v pydict \<Rightarrow> 'v pydict" where
  "dict_set k v [] = [(k, v)]"
| "dict_set k v ((k', v') # d) = (if k' = k then (k', v) # d else (k', v') # dict_set k v d)"

definition dict_literal :: "(string \<times> 'v) list \<Rightarrow> 'v pydict" where
  "dict_literal kvs = foldl (\<lambda>d (k, v). dict_set k v d) [] kvs"

definition stats_dict :: "cohort_stats \<Rightarrow> pyval pydict" where
  "stats_dict s =
     [(''user_count'', PInt (int (user_count s))),
      (''session_count'', PInt (int (session_count s))),
      (''avg_events_per_session'', avg_events_per_session s),
      (''avg_ltv'', avg_ltv s),
      (''purchase_events'', PInt (int (purchase_events s))),
      (''cart_add_events'', PInt (int (cart_add_events s))),
      (''conversion_rate'', conversion_rate s)]"

definition rounded_diff :: "nat \<Rightarrow> pyval \<Rightarrow> pyval \<Rightarrow> pyval result" where
  "rounded_diff nd a b = rbind (py_sub a b) (py_round nd)"

definition comparison_dict :: "cohort_stats \<Rightarrow> cohort_stats \<Rightarrow> pyval pydict result" where
  "comparison_dict a b =
     rbind (rounded_diff 2 (avg_events_per_session a) (avg_events_per_session b)) (\<lambda>events_diff.
     rbind (rounded_diff 2 (avg_ltv a) (avg_ltv b)) (\<lambda>ltv_diff.
     rbind (rounded_diff 1 (conversion_rate a) (conversion_rate b)) (\<lambda>conversion_diff.
     Inr [(''events_diff'', events_diff),
          (''ltv_diff'', ltv_diff),
          (''conversion_diff'', conversion_diff)])))"

definition compare_cohorts ::
  "(rat \<Rightarrow> string) \<Rightarrow> graph \<Rightarrow> user_filter \<Rightarrow> user_filter \<Rightarrow> string \<Rightarrow> string \<Rightarrow> int \<Rightarrow>
   pyval pydict pydict result" where
  "compare_cohorts fr G cohort_a_filter cohort_b_filter cohort_a_name cohort_b_name sample_size =
     rbind (analyze_cohort fr G cohort_a_filter sample_size) (\<lambda>cohort_a_stats.
     rbind (analyze_cohort fr G cohort_b_filter sample_size) (\<lambda>cohort_b_stats.
     rbind (comparison_dict cohort_a_stats cohort_b_stats) (\<lambda>comparison.
     Inr (dict_literal
            [(cohort_a_name, stats_dict cohort_a_stats),
             (cohort_b_name, stats_dict cohort_b_stats),
             (''comparison'', comparison)]))))"

section \<open>Product-centric queries\<close>

text \<open>
  One step back along a \<^verbatim>\<open>NEXT\<close> edge: the first predecessor whose edge has that type.
  \<^verbatim>\<open>if not prev_event: break\<close> ends the walk at no predecessor and at the node with the
  empty name.
\<close>

definition prev_event :: "graph \<Rightarrow> node \<Rightarrow> node option" where
  "prev_event G cur =
     (case find (\<lambda>p. py_eq (dget (edge_of G p cur) ''edge_type'') (PStr ''NEXT'')) (pred_of G cur) of
        Some p \<Rightarrow> if p = [] then None else Some p
      | None \<Rightarrow> None)"

text \<open>
  The walk \<^verbatim>\<open>for _ in range(k)\<close> of both scanners: the events it steps to, nearest first.
\<close>

fun backward_walk :: "graph \<Rightarrow> nat \<Rightarrow> node \<Rightarrow> node list" where
  "backward_walk G 0 cur = []"
| "backward_walk G (Suc k) cur =
     (case prev_event G cur of
        None \<Rightarrow> []
      | Some p \<Rightarrow> p # backward_walk G k p)"

definition max_hops :: nat where
  "max_hops = 20"

type_synonym view_counts = "pyval counter \<times> pyval counter"

definition tally_product :: "attrs \<Rightarrow> view_counts \<Rightarrow> view_counts" where
  "tally_product prod_data vc =
     (counter_incr py_eq (dget_default prod_data ''category'' (PStr ''Unknown'')) (fst vc),
      counter_incr py_eq (dget_default prod_data ''name'' (PStr ''Unknown'')) (snd vc))"

definition tally_event :: "graph \<Rightarrow> node \<Rightarrow> view_counts \<Rightarrow> view_counts" where
  "tally_event G e vc =
     (if py_eq (node_get G e ''event_type'') (PStr ''page_view'')
         \<or> py_eq (node_get G e ''event_type'') (PStr ''click'')
      then foldl (\<lambda>vc' p. tally_product (node_attrs G p) vc') vc
             (filter (has_type G ''Product'') (succ_of G e))
      else vc)"

definition purchase_retained :: "graph \<Rightarrow> string \<Rightarrow> node \<Rightarrow> bool" where
  "purchase_retained G category_filter n =
     (category_filter = [] \<or>
      (case find (has_type G ''Product'') (succ_of G n) of
         None \<Rightarrow> False
       | Some p \<Rightarrow> py_eq (node_get G p ''category'') (PStr category_filter)))"

fun scan_purchases ::
  "graph \<Rightarrow> string \<Rightarrow> int \<Rightarrow> (node \<times> attrs) list \<Rightarrow> view_counts \<times> nat \<Rightarrow> view_counts \<times> nat" where
  "scan_purchases G category_filter limit [] st = st"
| "scan_purchases G category_filter limit ((n, data) # rest) (vc, total_purchases) =
     (if \<not> py_eq (dget data ''node_type'') (PStr ''Event'')
        then scan_purchases G category_filter limit rest (vc, total_purchases)
      else if \<not> py_eq (dget data ''event_type'') (PStr ''purchase'')
        then scan_purchases G category_filter limit rest (vc, total_purchases)
      else if \<not> purchase_retained G category_filter n
        then scan_purchases G category_filter limit rest (vc, total_purchases)
      else
        let vc' = foldl (\<lambda>acc e. tally_event G e acc) vc (backward_walk G max_hops n)
        in if limit \<le> int (Suc total_purchases) then (vc', Suc total_purchases)
           else scan_purchases G category_filter limit rest (vc', Suc total_purchases))"

record purchase_report =
  total_purchases_analyzed :: nat
  categories_viewed_before_purchase :: "pyval counter"
  top_products_viewed :: "pyval counter"

definition find_products_before_purchase :: "graph \<Rightarrow> string \<Rightarrow> int \<Rightarrow> purchase_report" where
  "find_products_before_purchase G category_filter limit =
     (case scan_purchases G category_filter limit (nodes_of G) (([], []), 0) of
        ((categories_viewed, products_viewed), total_purchases) \<Rightarrow>
          \<lparr>total_purchases_analyzed = total_purchases,
           categories_viewed_before_purchase = most_common 10 categories_viewed,
           top_products_viewed = most_common 10 products_viewed\<rparr>)"

text \<open>
  \<open>find_exit_points_after_category\<close>: an event of the walk counts when one of its
  products is in the category; the inner \<^verbatim>\<open>break\<close> makes it count once.
\<close>

definition views_category :: "graph \<Rightarrow> string \<Rightarrow> node \<Rightarrow> bool" where
  "views_category G category e =
     (\<exists>p \<in> set (filter (has_type G ''Product'') (succ_of G e)).
        py_eq (node_get G p ''category'') (PStr category))"

record exit_acc =
  exit_after_category :: nat
  exit_patterns :: "pyval counter"
  events_before_exit :: "nat list"

definition exit_step :: "graph \<Rightarrow> string \<Rightarrow> node \<Rightarrow> exit_acc \<Rightarrow> exit_acc" where
  "exit_step G category n acc =
     (let walk = backward_walk G max_hops n;
          viewing = filter (views_category G category) walk;
          patterns = foldl (\<lambda>c e. counter_incr py_eq
                              (dget_default (node_attrs G e) ''event_type'' (PStr ''unknown'')) c)
                       (exit_patterns acc) viewing
      in if viewing \<noteq> []
         then \<lparr>exit_after_category = Suc (exit_after_category acc),
               exit_patterns = patterns,
               events_before_exit = events_before_exit acc @ [length walk]\<rparr>
         else acc)"

fun scan_exits :: "graph \<Rightarrow> string \<Rightarrow> int \<Rightarrow> (node \<times> attrs) list \<Rightarrow> exit_acc \<Rightarrow> exit_acc" where
  "scan_exits G category limit [] acc = acc"
| "scan_exits G category limit ((n, data) # rest) acc =
     (if \<not> py_eq (dget data ''node_type'') (PStr ''Event'')
        then scan_exits G category limit rest acc
      else if \<not> py_eq (dget data ''event_type'') (PStr ''exit'')
        then scan_exits G category limit rest acc
      else
        let acc' = exit_step G category n acc
        in if limit \<le> int (exit_after_category acc') then acc'
           else scan_exits G category limit rest acc')"

record exit_report =
  category :: string
  exits_after_viewing :: nat
  avg_events_before_exit :: pyval
  last_event_before_exit :: "pyval counter"

definition find_exit_points_after_category :: "graph \<Rightarrow> string \<Rightarrow> int \<Rightarrow> exit_report result" where
  "find_exit_points_after_category G cat limit =
     (let acc = scan_exits G cat limit (nodes_of G)
                  \<lparr>exit_after_category = 0, exit_patterns = [], events_before_exit = []\<rparr>
      in rbind (rbind (mean_count (events_before_exit acc)) (py_round 2)) (\<lambda>avg.
           Inr \<lparr>category = cat,
                exits_after_viewing = exit_after_category acc,
                avg_events_before_exit = avg,
                last_event_before_exit = most_common 5 (exit_patterns acc)\<rparr>))"

section \<open>Context serialization\<close>

definition NL :: string where
  "NL = [CHR 0x0A]"

text \<open>
  The format \<^verbatim>\<open>{v:.Nf}\<close>: the float of a number, rounded half to even at \<open>N\<close> decimal
  places, with a minus sign when the sign bit is set. \<^verbatim>\<open>None\<close> has no such format (\<^verbatim>\<open>TypeError\<close>), nor has a string
  (\<^verbatim>\<open>ValueError\<close>).
\<close>

definition fmt_fixed :: "nat \<Rightarrow> bool \<Rightarrow> rat \<Rightarrow> string" where
  "fmt_fixed nd neg r =
     (let q = nat (rhe (\<bar>r\<bar> * 10 ^ nd));
          frac = show_nat (q mod 10 ^ nd)
      in (if neg then ''-'' else [])
         @ show_nat (q div 10 ^ nd)
         @ (if nd = 0 then [] else ''.'' @ replicate (nd - length frac) CHR ''0'' @ frac))"

fun py_format_f :: "nat \<Rightarrow> pyval \<Rightarrow> string result" where
  "py_format_f nd PNone = Inl TypeError"
| "py_format_f nd (PStr s) = Inl ValueError"
| "py_format_f nd v =
     (case py_float v of Some x \<Rightarrow> Inr (fmt_fixed nd (fst x) (snd x)) | None \<Rightarrow> Inl TypeError)"

text \<open>
  \<^verbatim>\<open>str.title()\<close>. On ASCII text a letter after a letter is lowered and any other letter
  is raised. The title of a text with characters beyond ASCII follows the case tables of
  Unicode, taken here as the parameter \<open>tt\<close>.
\<close>

definition is_lower :: "char \<Rightarrow> bool" where
  "is_lower c = (97 \<le> (of_char c :: nat) \<and> (of_char c :: nat) \<le> 122)"

definition is_upper :: "char \<Rightarrow> bool" where
  "is_upper c = (65 \<le> (of_char c :: nat) \<and> (of_char c :: nat) \<le> 90)"

definition to_upper :: "char \<Rightarrow> char" where
  "to_upper c = (if is_lower c then char_of ((of_char c :: nat) - 32) else c)"

definition to_lower :: "char \<Rightarrow> char" where
  "to_lower c = (if is_upper c then char_of ((of_char c :: nat) + 32) else c)"

fun title_from :: "bool \<Rightarrow> string \<Rightarrow> string" where
  "title_from previous_is_cased [] = []"
| "title_from previous_is_cased (c # cs) =
     (if is_lower c \<or> is_upper c
      then (if previous_is_cased then to_lower c else to_upper c) # title_from True cs
      else c # title_from False cs)"

definition py_title :: "(string \<Rightarrow> string) \<Rightarrow> string \<Rightarrow> string" where
  "py_title tt s = (if list_all (\<lambda>c. (of_char c :: nat) < 128) s then title_from False s else tt s)"

definition user_line :: "(rat \<Rightarrow> string) \<Rightarrow> user_context \<Rightarrow> string result" where
  "user_line fr ctx =
     rbind (py_format_f 2 (uc_ltv ctx)) (\<lambda>ltv_text.
       Inr (''User (segment: '' @ py_str fr (uc_segment ctx) @ '', LTV: $'' @ ltv_text
            @ '', churned: '' @ py_str fr (uc_churned ctx) @ '')''))"

text \<open>
  The description of one event. With a product the f-string is formatted first and then
  appended to the event type, which must be a string for \<^verbatim>\<open>+=\<close>.
\<close>

definition event_desc :: "(rat \<Rightarrow> string) \<Rightarrow> event \<Rightarrow> pyval result" where
  "event_desc fr e =
     (case ev_products e of
        [] \<Rightarrow> Inr (ev_type e)
      | product # _ \<Rightarrow>
          rbind (py_format_f 2 (dget_default product ''price'' (PInt 0))) (\<lambda>price_text.
            if is_str (ev_type e)
            then Inr (PStr (str_of (ev_type e) @ '' (''
                            @ py_str fr (dget_default product ''category'' (PStr ''Unknown''))
                            @ '' - $'' @ price_text @ '')''))
            else Inl TypeError))"

definition serialize_journey_to_text :: "(rat \<Rightarrow> string) \<Rightarrow> path \<Rightarrow> string result" where
  "serialize_journey_to_text fr p =
     rbind (case p_user_context p of
              Some ctx \<Rightarrow> rbind (user_line fr ctx) (\<lambda>l. Inr [l])
            | None \<Rightarrow> Inr []) (\<lambda>parts.
     rbind (collect (map (event_desc fr) (j_events (p_journey p)))) (\<lambda>path_parts.
     rbind (if path_parts \<noteq> []
            then rbind (join_values arrow_sep path_parts) (\<lambda>t. Inr (parts @ [''Journey: '' @ t]))
            else Inr parts) (\<lambda>parts'.
     Inr (py_join NL parts'))))"

definition journey_block :: "(rat \<Rightarrow> string) \<Rightarrow> nat \<times> path \<Rightarrow> string list result" where
  "journey_block fr ip =
     rbind (serialize_journey_to_text fr (snd ip)) (\<lambda>t.
       Inr [NL @ ''**Journey '' @ show_nat (fst ip) @ '':**'', t])"

definition event_type_counts :: "path list \<Rightarrow> pyval counter" where
  "event_type_counts journeys =
     foldl (\<lambda>c e. counter_incr py_eq (ev_type e) c) []
       (concat (map (\<lambda>j. j_events (p_journey j)) journeys))"

definition statistics_lines :: "(rat \<Rightarrow> string) \<Rightarrow> path list \<Rightarrow> string list result" where
  "statistics_lines fr journeys =
     rbind (py_truediv (PInt (int (sum_list (map (\<lambda>j. length (j_events (p_journey j))) journeys))))
              (length journeys)) (\<lambda>avg_events.
     rbind (py_format_f 1 avg_events) (\<lambda>avg_text.
       Inr [NL @ ''### Statistics:'',
            ''- Total journeys analyzed: '' @ show_nat (length journeys),
            ''- Average events per session: '' @ avg_text,
            ''- Event distribution: ''
              @ py_join '', '' (map (\<lambda>(k, v). py_str fr k @ '': '' @ show_nat v)
                                  (most_common 5 (event_type_counts journeys)))]))"

definition serialize_journeys_for_llm ::
  "(rat \<Rightarrow> string) \<Rightarrow> path list \<Rightarrow> int \<Rightarrow> bool \<Rightarrow> string result" where
  "serialize_journeys_for_llm fr journeys max_journeys include_stats =
     (if journeys = [] then Inr ''No journeys found matching the criteria.''
      else
        let shown = py_take max_journeys journeys
        in rbind (collect (map (journey_block fr) (zip [1 ..< Suc (length shown)] shown))) (\<lambda>blocks.
           rbind (if include_stats \<and> 1 < length journeys then statistics_lines fr journeys
                  else Inr []) (\<lambda>stats.
           Inr (py_join NL
                  ([''## Customer Journey Context'' @ NL, ''### Sample Journeys:'']
                   @ concat blocks @ stats)))))"

definition pattern_line :: "nat \<times> string \<times> nat \<times> pyval \<Rightarrow> string result" where
  "pattern_line ip =
     (case ip of (i, pattern, cnt, pct) \<Rightarrow>
        rbind (py_format_f 1 pct) (\<lambda>pct_text.
          Inr (show_nat i @ ''. **'' @ pattern @ ''** - '' @ show_nat cnt
               @ '' occurrences ('' @ pct_text @ ''%)'')))"

definition serialize_patterns_for_llm ::
  "(string \<Rightarrow> string) \<Rightarrow> (string \<times> nat \<times> pyval) list \<Rightarrow> string \<Rightarrow> string result" where
  "serialize_patterns_for_llm tt patterns context_description =
     (if patterns = [] then Inr (''No '' @ context_description @ '' found.'')
      else
        rbind (collect (map pattern_line (zip [1 ..< Suc (length patterns)] patterns))) (\<lambda>ls.
          Inr (py_join NL ((''## Common '' @ py_title tt context_description @ NL) # ls))))"

text \<open>\<^verbatim>\<open>abs(v)\<close> and \<^verbatim>\<open>v > 0\<close> are defined on numbers only.\<close>

fun py_abs :: "pyval \<Rightarrow> pyval result" where
  "py_abs (PInt i) = Inr (PInt \<bar>i\<bar>)"
| "py_abs (PBool b) = Inr (PInt (if b then 1 else 0))"
| "py_abs (PFloat r) = Inr (PFloat \<bar>r\<bar>)"
| "py_abs PNegZero = Inr (PFloat 0)"
| "py_abs v = Inl TypeError"

definition py_positive :: "pyval \<Rightarrow> bool result" where
  "py_positive v = (case py_num v of Some x \<Rightarrow> Inr (0 < x) | None \<Rightarrow> Inl TypeError)"

definition difference_line :: "(rat \<Rightarrow> string) \<Rightarrow> string \<times> pyval \<Rightarrow> string result" where
  "difference_line fr md =
     rbind (py_positive (snd md)) (\<lambda>pos.
     rbind (py_abs (snd md)) (\<lambda>a.
       Inr (''- '' @ fst md @ '': '' @ py_str fr a @ '' ''
            @ (if pos then ''higher'' else ''lower''))))"

definition comparison_block :: "(rat \<Rightarrow> string) \<Rightarrow> string \<times> pyval pydict \<Rightarrow> string list result" where
  "comparison_block fr kv =
     (if fst kv = ''comparison''
      then rbind (collect (map (difference_line fr) (snd kv))) (\<lambda>ls.
             Inr ((NL @ ''### Key Differences:'') # ls))
      else Inr ((NL @ ''### '' @ fst kv @ '':'')
                # map (\<lambda>(metric, stat). ''- '' @ metric @ '': '' @ py_str fr stat) (snd kv)))"

definition serialize_comparison_for_llm ::
  "(rat \<Rightarrow> string) \<Rightarrow> pyval pydict pydict \<Rightarrow> string result" where
  "serialize_comparison_for_llm fr comparison =
     rbind (collect (map (comparison_block fr) comparison)) (\<lambda>blocks.
       Inr (py_join NL ((''## Cohort Comparison'' @ NL) # concat blocks)))"

section \<open>High-level query functions\<close>

definition query_churned_user_journeys ::
  "(rat \<Rightarrow> string) \<Rightarrow> (string \<Rightarrow> string) \<Rightarrow> graph \<Rightarrow> int \<Rightarrow> string result" where
  "query_churned_user_journeys fr tt G sample_size =
     rbind (find_churn_paths fr G sample_size) (\<lambda>paths.
     rbind (find_common_patterns fr G [(''churned'', PBool True)] 100) (\<lambda>patterns.
     rbind (serialize_journeys_for_llm fr paths 5 True) (\<lambda>journey_text.
     rbind (serialize_patterns_for_llm tt patterns ''churned user journey patterns'') (\<lambda>pattern_text.
       Inr (journey_text @ NL @ NL @ pattern_text)))))"

definition query_high_vs_low_ltv ::
  "(rat \<Rightarrow> string) \<Rightarrow> (string \<Rightarrow> string) \<Rightarrow> graph \<Rightarrow> string result" where
  "query_high_vs_low_ltv fr tt G =
     rbind (compare_cohorts fr G [(''segment'', PStr ''high_value'')] [(''segment'', PStr ''low'')]
              ''High-Value Users'' ''Low-Value Users'' 50) (\<lambda>comparison.
     rbind (find_common_patterns fr G [(''segment'', PStr ''high_value'')] 50) (\<lambda>high_patterns.
     rbind (find_common_patterns fr G [(''segment'', PStr ''low'')] 50) (\<lambda>low_patterns.
     rbind (serialize_comparison_for_llm fr comparison) (\<lambda>comparison_text.
     rbind (serialize_patterns_for_llm tt high_patterns ''high-value user patterns'') (\<lambda>high_pattern_text.
     rbind (serialize_patterns_for_llm tt low_patterns ''low-value user patterns'') (\<lambda>low_pattern_text.
       Inr (comparison_text @ NL @ NL @ high_pattern_text @ NL @ NL @ low_pattern_text)))))))"

text \<open>The optional category of \<open>query_pre_purchase_behavior\<close>: \<^verbatim>\<open>None\<close> is the empty text.\<close>

definition query_pre_purchase_behavior :: "(rat \<Rightarrow> string) \<Rightarrow> graph \<Rightarrow> string \<Rightarrow> string result" where
  "query_pre_purchase_behavior fr G cat =
     (let pre_purchase = find_products_before_purchase G cat 50
      in rbind (find_conversion_paths fr G 20) (\<lambda>conversion_paths.
         rbind (serialize_journeys_for_llm fr conversion_paths 5 True) (\<lambda>journey_text.
           Inr (py_join NL
                  ([''## Pre-Purchase Behavior Analysis'' @ NL]
                   @ (if cat \<noteq> [] then [''**Filtered by category: '' @ cat @ ''**'' @ NL] else [])
                   @ [''Purchases analyzed: '' @ show_nat (total_purchases_analyzed pre_purchase),
                      NL @ ''### Categories viewed before purchase:'']
                   @ map (\<lambda>(c, n). ''- '' @ py_str fr c @ '': '' @ show_nat n @ '' views'')
                       (categories_viewed_before_purchase pre_purchase)
                   @ [NL @ ''### Sample conversion journeys:''])
                @ NL @ NL @ journey_text))))"

definition query_category_exit_analysis :: "(rat \<Rightarrow> string) \<Rightarrow> graph \<Rightarrow> string \<Rightarrow> string result" where
  "query_category_exit_analysis fr G cat =
     rbind (find_exit_points_after_category G cat 50) (\<lambda>exit_data.
       Inr (py_join NL
              ([''## Exit Analysis for '' @ cat @ '' Category'' @ NL,
                ''- Users who exited after viewing '' @ cat @ '': ''
                  @ show_nat (exits_after_viewing exit_data),
                ''- Average events before exit: '' @ py_str fr (avg_events_before_exit exit_data),
                NL @ ''### Last event type before exit:'']
               @ map (\<lambda>(event_type, n). ''- '' @ py_str fr event_type @ '': '' @ show_nat n)
                   (last_event_before_exit exit_data))))"

section \<open>Example graphs\<close>

text \<open>
  Graphs are built the way the tests of the repository build them, by a sequence of
  \<^verbatim>\<open>add_node\<close> and \<^verbatim>\<open>add_edge\<close> calls on an empty graph. The examples print a float
  with one decimal place.
\<close>

definition build :: "(graph \<Rightarrow> graph) list \<Rightarrow> graph" where
  "build steps = foldl (\<lambda>G f. f G) empty_graph steps"

definition example_repr :: "rat \<Rightarrow> string" where
  "example_repr r = fmt_fixed 1 (r < 0) r"

text \<open>The fixture \<^verbatim>\<open>sample_graph\<close> of \<^verbatim>\<open>tests/test_retrieval.py\<close>.\<close>

definition sample_graph :: graph where
  "sample_graph = build
     [add_node ''user_1'' [''node_type'' \<mapsto> PStr ''User'', ''user_id'' \<mapsto> PInt 1,
                          ''segment'' \<mapsto> PStr ''high_value'', ''ltv'' \<mapsto> PFloat 500,
                          ''churned'' \<mapsto> PBool False],
      add_node ''session_1'' [''node_type'' \<mapsto> PStr ''Session'', ''session_id'' \<mapsto> PInt 1,
                             ''start_time'' \<mapsto> PStr ''2026-01-01T10:00:00''],
      add_edge ''user_1'' ''session_1'' [''edge_type'' \<mapsto> PStr ''STARTED''],
      add_node ''event_1'' [''node_type'' \<mapsto> PStr ''Event'', ''event_id'' \<mapsto> PInt 1,
                           ''event_type'' \<mapsto> PStr ''page_view'',
                           ''timestamp'' \<mapsto> PStr ''2026-01-01T10:00:00'',
                           ''page_url'' \<mapsto> PStr ''/home''],
      add_node ''event_2'' [''node_type'' \<mapsto> PStr ''Event'', ''event_id'' \<mapsto> PInt 2,
                           ''event_type'' \<mapsto> PStr ''click'',
                           ''timestamp'' \<mapsto> PStr ''2026-01-01T10:01:00'',
                           ''page_url'' \<mapsto> PStr ''/products''],
      add_node ''event_3'' [''node_type'' \<mapsto> PStr ''Event'', ''event_id'' \<mapsto> PInt 3,
                           ''event_type'' \<mapsto> PStr ''purchase'',
                           ''timestamp'' \<mapsto> PStr ''2026-01-01T10:02:00'',
                           ''page_url'' \<mapsto> PStr ''/checkout''],
      add_edge ''session_1'' ''event_1'' [''edge_type'' \<mapsto> PStr ''CONTAINS''],
      add_edge ''session_1'' ''event_2'' [''edge_type'' \<mapsto> PStr ''CONTAINS''],
      add_edge ''session_1'' ''event_3'' [''edge_type'' \<mapsto> PStr ''CONTAINS''],
      add_edge ''event_1'' ''event_2'' [''edge_type'' \<mapsto> PStr ''NEXT''],
      add_edge ''event_2'' ''event_3'' [''edge_type'' \<mapsto> PStr ''NEXT''],
      add_node ''product_1'' [''node_type'' \<mapsto> PStr ''Product'', ''product_id'' \<mapsto> PInt 1,
                             ''name'' \<mapsto> PStr ''Test Product'',
                             ''category'' \<mapsto> PStr ''Electronics'',
                             ''price'' \<mapsto> PFloat (fl64 (9999 / 100))],
      add_edge ''event_2'' ''product_1'' [''edge_type'' \<mapsto> PStr ''INVOLVES'']]"

text \<open>
  One session whose two events carry the same timestamp; the event with the larger id was
  added to the session first.
\<close>

definition tie_graph :: graph where
  "tie_graph = build
     [add_node ''user_1'' [''node_type'' \<mapsto> PStr ''User'', ''user_id'' \<mapsto> PInt 1],
      add_node ''session_1'' [''node_type'' \<mapsto> PStr ''Session'', ''session_id'' \<mapsto> PInt 1],
      add_edge ''user_1'' ''session_1'' [''edge_type'' \<mapsto> PStr ''STARTED''],
      add_node ''event_2'' [''node_type'' \<mapsto> PStr ''Event'', ''event_id'' \<mapsto> PInt 2,
                           ''event_type'' \<mapsto> PStr ''click'',
                           ''timestamp'' \<mapsto> PStr ''2026-01-01T10:00:00''],
      add_node ''event_1'' [''node_type'' \<mapsto> PStr ''Event'', ''event_id'' \<mapsto> PInt 1,
                           ''event_type'' \<mapsto> PStr ''page_view'',
                           ''timestamp'' \<mapsto> PStr ''2026-01-01T10:00:00''],
      add_edge ''session_1'' ''event_2'' [''edge_type'' \<mapsto> PStr ''CONTAINS''],
      add_edge ''session_1'' ''event_1'' [''edge_type'' \<mapsto> PStr ''CONTAINS'']]"

text \<open>
  Three users with eleven sessions between them; session \<open>i\<close> holds the single event of
  type \<^verbatim>\<open>step_i\<close>, so the eleven journey patterns are all different.
\<close>

definition one_event_session :: "node \<Rightarrow> nat \<Rightarrow> (graph \<Rightarrow> graph) list" where
  "one_event_session u i =
     [add_node (''session_'' @ show_nat i)
        [''node_type'' \<mapsto> PStr ''Session'', ''session_id'' \<mapsto> PInt (int i)],
      add_edge u (''session_'' @ show_nat i) [''edge_type'' \<mapsto> PStr ''STARTED''],
      add_node (''event_'' @ show_nat i)
        [''node_type'' \<mapsto> PStr ''Event'', ''event_id'' \<mapsto> PInt (int i),
         ''event_type'' \<mapsto> PStr (''step_'' @ show_nat i),
         ''timestamp'' \<mapsto> PStr ''2026-01-01T10:00:00''],
      add_edge (''session_'' @ show_nat i) (''event_'' @ show_nat i)
        [''edge_type'' \<mapsto> PStr ''CONTAINS'']]"

definition plain_user :: "nat \<Rightarrow> graph \<Rightarrow> graph" where
  "plain_user i =
     add_node (''user_'' @ show_nat i) [''node_type'' \<mapsto> PStr ''User'', ''user_id'' \<mapsto> PInt (int i)]"

definition eleven_graph :: graph where
  "eleven_graph = build
     ([plain_user 1, plain_user 2, plain_user 3]
      @ concat (map (one_event_session ''user_1'') [0 ..< 5])
      @ concat (map (one_event_session ''user_2'') [5 ..< 10])
      @ one_event_session ''user_3'' 10)"

text \<open>Two users without sessions, with the lifetime values 0.3 and 0.1.\<close>

definition ltv_graph :: graph where
  "ltv_graph = build
     [add_node ''user_1'' [''node_type'' \<mapsto> PStr ''User'', ''user_id'' \<mapsto> PInt 1,
                          ''segment'' \<mapsto> PStr ''high_value'',
                          ''ltv'' \<mapsto> PFloat (fl64 (3 / 10)), ''churned'' \<mapsto> PBool False],
      add_node ''user_2'' [''node_type'' \<mapsto> PStr ''User'', ''user_id'' \<mapsto> PInt 2,
                          ''segment'' \<mapsto> PStr ''low'',
                          ''ltv'' \<mapsto> PFloat (fl64 (1 / 10)), ''churned'' \<mapsto> PBool True]]"

text \<open>
  A purchase and a page view of a product that are each other's \<^verbatim>\<open>NEXT\<close>.
\<close>

definition purchase_cycle_graph :: graph where
  "purchase_cycle_graph = build
     [add_node ''event_1'' [''node_type'' \<mapsto> PStr ''Event'', ''event_id'' \<mapsto> PInt 1,
                           ''event_type'' \<mapsto> PStr ''purchase''],
      add_node ''event_2'' [''node_type'' \<mapsto> PStr ''Event'', ''event_id'' \<mapsto> PInt 2,
                           ''event_type'' \<mapsto> PStr ''page_view''],
      add_node ''product_1'' [''node_type'' \<mapsto> PStr ''Product'', ''name'' \<mapsto> PStr ''Phone'',
                             ''category'' \<mapsto> PStr ''Electronics''],
      add_edge ''event_1'' ''event_2'' [''edge_type'' \<mapsto> PStr ''NEXT''],
      add_edge ''event_2'' ''event_1'' [''edge_type'' \<mapsto> PStr ''NEXT''],
      add_edge ''event_2'' ''product_1'' [''edge_type'' \<mapsto> PStr ''INVOLVES'']]"

text \<open>Two events that are each other's \<^verbatim>\<open>NEXT\<close>; the first is an exit.\<close>

definition cycle_graph :: graph where
  "cycle_graph = build
     [add_node ''event_1'' [''node_type'' \<mapsto> PStr ''Event'', ''event_id'' \<mapsto> PInt 1,
                           ''event_type'' \<mapsto> PStr ''exit''],
      add_node ''event_2'' [''node_type'' \<mapsto> PStr ''Event'', ''event_id'' \<mapsto> PInt 2,
                           ''event_type'' \<mapsto> PStr ''page_view''],
      add_node ''product_1'' [''node_type'' \<mapsto> PStr ''Product'',
                             ''category'' \<mapsto> PStr ''Electronics''],
      add_edge ''event_1'' ''event_2'' [''edge_type'' \<mapsto> PStr ''NEXT''],
      add_edge ''event_2'' ''event_1'' [''edge_type'' \<mapsto> PStr ''NEXT''],
      add_edge ''event_2'' ''product_1'' [''edge_type'' \<mapsto> PStr ''INVOLVES'']]"

section \<open>Notions of the specification\<close>

text \<open>
  The text that the specification describes for a pattern: the items in their order, with
  the separator between neighbours and nowhere else.
\<close>

fun joined :: "string \<Rightarrow> string list \<Rightarrow> string" where
  "joined sep [] = []"
| "joined sep [x] = x"
| "joined sep (x # y # ys) = x @ sep @ joined sep (y # ys)"

text \<open>
  The order of Python on two values, where it is defined: numbers by value, strings by
  code points.
\<close>

definition py_le :: "pyval \<Rightarrow> pyval \<Rightarrow> bool" where
  "py_le a b =
     (case (py_num a, py_num b) of
        (Some x, Some y) \<Rightarrow> x \<le> y
      | _ \<Rightarrow> is_str a \<and> is_str b \<and> str_of a \<le> str_of b)"

definition py_lt :: "pyval \<Rightarrow> pyval \<Rightarrow> bool" where
  "py_lt a b =
     (case (py_num a, py_num b) of
        (Some x, Some y) \<Rightarrow> x < y
      | _ \<Rightarrow> is_str a \<and> is_str b \<and> str_of a < str_of b)"

text \<open>Events in ascending order of the timestamp.\<close>

definition time_ordered :: "event list \<Rightarrow> bool" where
  "time_ordered evs = sorted_wrt (\<lambda>a b. py_le (ev_timestamp a) (ev_timestamp b)) evs"

text \<open>
  Events in ascending order of the timestamp, with the event id deciding between equal
  timestamps: the order that the specification asks for.
\<close>

definition time_then_id :: "event \<Rightarrow> event \<Rightarrow> bool" where
  "time_then_id a b =
     (py_lt (ev_timestamp a) (ev_timestamp b)
      \<or> (py_eq (ev_timestamp a) (ev_timestamp b) \<and> py_le (ev_id a) (ev_id b)))"

definition time_then_id_ordered :: "event list \<Rightarrow> bool" where
  "time_then_id_ordered evs = sorted_wrt time_then_id evs"

definition time_and_id :: "event \<Rightarrow> pyval \<times> pyval" where
  "time_and_id e = (ev_timestamp e, ev_id e)"

text \<open>
  The events of a list that carry the timestamp \<open>k\<close>, in the order of the list. A sort is
  stable when it keeps this sublist for every \<open>k\<close>.
\<close>

definition at_time :: "pyval \<Rightarrow> event list \<Rightarrow> event list" where
  "at_time k evs = filter (\<lambda>e. py_eq (ev_timestamp e) k) evs"

text \<open>The graph with one attribute of one node set to a value.\<close>

definition set_node_attr :: "node \<Rightarrow> string \<Rightarrow> pyval \<Rightarrow> graph \<Rightarrow> graph" where
  "set_node_attr n k v G =
     G\<lparr>nodes_of := map (\<lambda>(m, a). if m = n then (m, a(k \<mapsto> v)) else (m, a)) (nodes_of G)\<rparr>"

text \<open>The three events of the session of \<open>sample_graph\<close>, in the order of their timestamps.\<close>

definition sample_events :: "event list" where
  "sample_events =
     [\<lparr>ev_id = PInt 1, ev_type = PStr ''page_view'', ev_timestamp = PStr ''2026-01-01T10:00:00'',
       ev_page_url = PStr ''/home'', ev_products = []\<rparr>,
      \<lparr>ev_id = PInt 2, ev_type = PStr ''click'', ev_timestamp = PStr ''2026-01-01T10:01:00'',
       ev_page_url = PStr ''/products'', ev_products = []\<rparr>,
      \<lparr>ev_id = PInt 3, ev_type = PStr ''purchase'', ev_timestamp = PStr ''2026-01-01T10:02:00'',
       ev_page_url = PStr ''/checkout'', ev_products = []\<rparr>]"

text \<open>
  The node dictionary of a graph has every node once. An event is the terminal event of a
  session and has the outcome type when it has that type, no \<^verbatim>\<open>NEXT\<close> edge leaves it,
  and the session is a predecessor of type Session.
\<close>

definition node_dict :: "graph \<Rightarrow> bool" where
  "node_dict G = distinct (map fst (nodes_of G))"

definition terminal_outcome :: "graph \<Rightarrow> string \<Rightarrow> node \<Rightarrow> node \<Rightarrow> bool" where
  "terminal_outcome G outcome e s =
     (has_type G ''Event'' e \<and> node_get G e ''event_type'' = PStr outcome \<and> \<not> has_next G e
      \<and> s \<in> set (pred_of G e) \<and> has_type G ''Session'' s)"

text \<open>
  A walk backward along inbound \<^verbatim>\<open>NEXT\<close> edges of at most \<open>k\<close> hops, as the
  specification describes it: every event of the walk is the \<^verbatim>\<open>NEXT\<close> predecessor of the
  one before it, there are at most \<open>k\<close> of them, and a walk of fewer than \<open>k\<close> hops has
  stopped at an event without such a predecessor.
\<close>

fun next_chain :: "graph \<Rightarrow> node \<Rightarrow> node list \<Rightarrow> bool" where
  "next_chain G cur [] = True"
| "next_chain G cur (p # ps) = (prev_event G cur = Some p \<and> next_chain G p ps)"

definition bounded_next_walk :: "graph \<Rightarrow> nat \<Rightarrow> node \<Rightarrow> node list \<Rightarrow> bool" where
  "bounded_next_walk G k start w =
     (next_chain G start w \<and> length w \<le> k
      \<and> (length w < k \<longrightarrow> prev_event G (last (start # w)) = None))"

text \<open>
  The walks of a scan: for every purchase that \<open>scan_purchases\<close> retains before it stops,
  the purchase and the events it walks back to. The control flow is that of the scan.
\<close>

fun purchase_walks_from ::
  "graph \<Rightarrow> string \<Rightarrow> int \<Rightarrow> (node \<times> attrs) list \<Rightarrow> nat \<Rightarrow> (node \<times> node list) list" where
  "purchase_walks_from G category_filter limit [] total_purchases = []"
| "purchase_walks_from G category_filter limit ((n, data) # rest) total_purchases =
     (if \<not> py_eq (dget data ''node_type'') (PStr ''Event'')
        then purchase_walks_from G category_filter limit rest total_purchases
      else if \<not> py_eq (dget data ''event_type'') (PStr ''purchase'')
        then purchase_walks_from G category_filter limit rest total_purchases
      else if \<not> purchase_retained G category_filter n
        then purchase_walks_from G category_filter limit rest total_purchases
      else (n, backward_walk G max_hops n)
           # (if limit \<le> int (Suc total_purchases) then []
              else purchase_walks_from G category_filter limit rest (Suc total_purchases)))"

definition purchase_walks :: "graph \<Rightarrow> string \<Rightarrow> int \<Rightarrow> (node \<times> node list) list" where
  "purchase_walks G category_filter limit =
     purchase_walks_from G category_filter limit (nodes_of G) 0"

text \<open>
  The same for \<open>scan_exits\<close>: every exit event it reaches, with its walk. A walk qualifies
  when one of its events views the category.
\<close>

definition qualifies :: "graph \<Rightarrow> string \<Rightarrow> node \<times> node list \<Rightarrow> bool" where
  "qualifies G cat sw = (filter (views_category G cat) (snd sw) \<noteq> [])"

fun exit_walks_from ::
  "graph \<Rightarrow> string \<Rightarrow> int \<Rightarrow> (node \<times> attrs) list \<Rightarrow> nat \<Rightarrow> (node \<times> node list) list" where
  "exit_walks_from G cat limit [] exits = []"
| "exit_walks_from G cat limit ((n, data) # rest) exits =
     (if \<not> py_eq (dget data ''node_type'') (PStr ''Event'')
        then exit_walks_from G cat limit rest exits
      else if \<not> py_eq (dget data ''event_type'') (PStr ''exit'')
        then exit_walks_from G cat limit rest exits
      else
        let sw = (n, backward_walk G max_hops n);
            exits' = (if qualifies G cat sw then Suc exits else exits)
        in sw # (if limit \<le> int exits' then [] else exit_walks_from G cat limit rest exits'))"

definition exit_walks :: "graph \<Rightarrow> string \<Rightarrow> int \<Rightarrow> (node \<times> node list) list" where
  "exit_walks G cat limit = exit_walks_from G cat limit (nodes_of G) 0"

text \<open>The tallies of the events of a list of walks, in the order of the walks.\<close>

definition tally_walks :: "graph \<Rightarrow> (node \<times> node list) list \<Rightarrow> view_counts" where
  "tally_walks G sws = foldl (\<lambda>acc e. tally_event G e acc) ([], []) (concat (map snd sws))"

text \<open>An event of the graph has at most \<open>d\<close> products.\<close>

definition products_at_most :: "graph \<Rightarrow> nat \<Rightarrow> bool" where
  "products_at_most G d = (\<forall>e. length (filter (has_type G ''Product'') (succ_of G e)) \<le> d)"

text \<open>The hop counts that \<open>find_exit_points_after_category\<close> records.\<close>

definition exit_hop_counts :: "graph \<Rightarrow> string \<Rightarrow> int \<Rightarrow> nat list" where
  "exit_hop_counts G cat limit =
     events_before_exit
       (scan_exits G cat limit (nodes_of G)
          \<lparr>exit_after_category = 0, exit_patterns = [], events_before_exit = []\<rparr>)"

text \<open>The journeys of user 1 in \<open>sample_graph\<close> and in \<open>tie_graph\<close>.\<close>

definition sample_result :: "journey list result" where
  "sample_result = extract_user_journeys example_repr sample_graph (PInt 1) 10"

definition tie_result :: "journey list result" where
  "tie_result = extract_user_journeys example_repr tie_graph (PInt 1) 10"

text \<open>\<open>sample_graph\<close> with a stored event count of 99 on its session.\<close>

definition miscounted_graph :: graph where
  "miscounted_graph = set_node_attr ''session_1'' ''event_count'' (PInt 99) sample_graph"

section \<open>Absent users\<close>

lemma py_eq_PStr [simp]: "py_eq v (PStr s) = (v = PStr s)"
  by (cases v) (auto simp: py_eq_def)

text \<open>
  C5. For a user id whose node \<^verbatim>\<open>user_<id>\<close> is not in the graph, \<open>extract_user_journeys\<close>
  returns the empty list (a normal return, no error) and \<open>get_user_context\<close> returns
  \<^verbatim>\<open>None\<close>.
\<close>

theorem absent_user_empty:
  assumes "\<not> has_node G (user_node fr user_id)"
  shows "extract_user_journeys fr G user_id max_sessions = Inr []
         \<and> get_user_context fr G user_id = None"
  using assms by (simp add: extract_user_journeys_def get_user_context_def)

text \<open>In \<open>sample_graph\<close> there is no user 99.\<close>

theorem absent_user_empty_witness:
  "\<not> has_node sample_graph (user_node example_repr (PInt 99))
   \<and> extract_user_journeys example_repr sample_graph (PInt 99) 10 = Inr []
   \<and> get_user_context example_repr sample_graph (PInt 99) = None"
proof -
  have absent: "\<not> has_node sample_graph (user_node example_repr (PInt 99))"
    by code_simp
  from absent absent_user_empty [OF absent, of 10] show ?thesis
    by simp
qed

section \<open>Journey patterns\<close>

lemma foldl_sep_concat:
  "foldl (\<lambda>acc y. acc @ sep @ y) x xs = x @ concat (map (\<lambda>y. sep @ y) xs)"
  by (induction xs arbitrary: x) simp_all

lemma joined_Cons_concat: "joined sep (x # xs) = x @ concat (map (\<lambda>y. sep @ y) xs)"
  by (induction xs arbitrary: x) simp_all

lemma py_join_joined: "py_join sep xs = joined sep xs"
  by (cases xs) (simp_all add: foldl_sep_concat joined_Cons_concat)

text \<open>
  C8. The pattern of no events is the empty text. The pattern of events whose types are
  strings is the event types in sequence order, joined by the arrow separator; a type that
  is not a string is a \<^verbatim>\<open>TypeError\<close>. The pattern is a function of the sequence alone.
\<close>

theorem journey_pattern_joined:
  "extract_journey_pattern [] = Inr []
   \<and> ((\<forall>e \<in> set events. is_str (ev_type e)) \<longrightarrow>
        extract_journey_pattern events
          = Inr (joined arrow_sep (map (\<lambda>e. str_of (ev_type e)) events)))
   \<and> (\<not> (\<forall>e \<in> set events. is_str (ev_type e)) \<longrightarrow>
        extract_journey_pattern events = Inl TypeError)"
  by (simp add: extract_journey_pattern_def join_values_def py_join_joined comp_def)

theorem journey_pattern_joined_witness:
  "list_all (\<lambda>e. is_str (ev_type e)) sample_events
   \<and> extract_journey_pattern sample_events
       = Inr (''page_view'' @ arrow_sep @ ''click'' @ arrow_sep @ ''purchase'')"
  using journey_pattern_joined [of sample_events] by (simp add: sample_events_def)

section \<open>The order of the events of a journey\<close>

lemma collect_map_Inr:
  "collect (map f ss) = Inr xs \<Longrightarrow> x \<in> set xs \<Longrightarrow> \<exists>s \<in> set ss. f s = Inr x"
proof (induction ss arbitrary: xs)
  case Nil
  then show ?case by simp
next
  case (Cons s ss)
  then show ?case
    by (cases "f s"; cases "collect (map f ss)") auto
qed

lemma set_py_take: "set (py_take n xs) \<subseteq> set xs"
  by (auto simp: py_take_def dest: in_set_takeD)

lemma journey_of_session:
  assumes "extract_user_journeys fr G user_id max_sessions = Inr js" and "j \<in> set js"
  shows "\<exists>s \<in> set (succ_of G (user_node fr user_id)).
           has_type G ''Session'' s \<and> session_journey G s = Inr j"
proof (cases "has_node G (user_node fr user_id)")
  case False
  with assms(1) have "js = []" by (simp add: extract_user_journeys_def)
  with assms(2) show ?thesis by simp
next
  case True
  define ss where "ss = filter (has_type G ''Session'') (succ_of G (user_node fr user_id))"
  from assms(1) True have "collect (map (session_journey G) (py_take max_sessions ss)) = Inr js"
    by (simp add: extract_user_journeys_def ss_def)
  from collect_map_Inr [OF this assms(2)] obtain s
    where s: "s \<in> set (py_take max_sessions ss)" and j: "session_journey G s = Inr j"
    by blast
  from s have "s \<in> set ss"
    by (rule subsetD [OF set_py_take])
  then have "s \<in> set (succ_of G (user_node fr user_id))" and "has_type G ''Session'' s"
    by (simp_all add: ss_def)
  with j show ?thesis by blast
qed

lemma at_time_num:
  assumes "\<forall>e \<in> set evs. py_num (ev_timestamp e) \<noteq> None"
  shows "at_time k evs =
         (if py_num k = None then [] else filter (\<lambda>e. num_of (ev_timestamp e) = num_of k) evs)"
proof -
  have eq: "py_eq (ev_timestamp e) k = (py_num k \<noteq> None \<and> num_of (ev_timestamp e) = num_of k)"
    if "e \<in> set evs" for e
  proof -
    from that assms obtain x where "py_num (ev_timestamp e) = Some x" by auto
    then show ?thesis
      by (cases "py_num k") (simp_all add: py_eq_def num_of_def)
  qed
  have "at_time k evs
        = filter (\<lambda>e. py_num k \<noteq> None \<and> num_of (ev_timestamp e) = num_of k) evs"
    unfolding at_time_def by (rule filter_cong [OF refl]) (rule eq)
  then show ?thesis by simp
qed

lemma at_time_str:
  assumes "\<forall>e \<in> set evs. is_str (ev_timestamp e)"
  shows "at_time k evs =
         (if is_str k then filter (\<lambda>e. str_of (ev_timestamp e) = str_of k) evs else [])"
proof -
  have eq: "py_eq (ev_timestamp e) k = (is_str k \<and> str_of (ev_timestamp e) = str_of k)"
    if "e \<in> set evs" for e
  proof -
    from that assms obtain t where "ev_timestamp e = PStr t"
      by (cases "ev_timestamp e") auto
    then show ?thesis
      by (cases k) (simp_all add: py_eq_def)
  qed
  have "at_time k evs = filter (\<lambda>e. is_str k \<and> str_of (ev_timestamp e) = str_of k) evs"
    unfolding at_time_def by (rule filter_cong [OF refl]) (rule eq)
  then show ?thesis by simp
qed

lemma sort_by_timestamp_cases:
  assumes "sort_by_timestamp evs = Inr evs'"
  obtains (short) "length evs \<le> 1" "evs' = evs"
    | (nums) "\<forall>e \<in> set evs. py_num (ev_timestamp e) \<noteq> None"
        "evs' = sort_key (\<lambda>e. num_of (ev_timestamp e)) evs"
    | (strs) "\<forall>e \<in> set evs. is_str (ev_timestamp e)"
        "evs' = sort_key (\<lambda>e. str_of (ev_timestamp e)) evs"
proof (cases "length evs \<le> 1")
  case True
  have "sort_by_timestamp evs = Inr evs"
    by (simp only: sort_by_timestamp_def if_P [OF True])
  with assms have "evs' = evs" by simp
  with True show ?thesis by (rule short)
next
  case long: False
  show ?thesis
  proof (cases "\<forall>e \<in> set evs. py_num (ev_timestamp e) \<noteq> None")
    case True
    have "sort_by_timestamp evs = Inr (sort_key (\<lambda>e. num_of (ev_timestamp e)) evs)"
      by (simp only: sort_by_timestamp_def if_not_P [OF long] if_P [OF True])
    with assms have "evs' = sort_key (\<lambda>e. num_of (ev_timestamp e)) evs" by simp
    with True show ?thesis by (rule nums)
  next
    case nonum: False
    show ?thesis
    proof (cases "\<forall>e \<in> set evs. is_str (ev_timestamp e)")
      case True
      have "sort_by_timestamp evs = Inr (sort_key (\<lambda>e. str_of (ev_timestamp e)) evs)"
        by (simp only: sort_by_timestamp_def if_not_P [OF long] if_not_P [OF nonum] if_P [OF True])
      with assms have "evs' = sort_key (\<lambda>e. str_of (ev_timestamp e)) evs" by simp
      with True show ?thesis by (rule strs)
    next
      case False
      have "sort_by_timestamp evs = Inl TypeError"
        by (simp only: sort_by_timestamp_def if_not_P [OF long] if_not_P [OF nonum] if_not_P [OF False])
      with assms show ?thesis by simp
    qed
  qed
qed

lemma py_le_num:
  "py_num a \<noteq> None \<Longrightarrow> py_num b \<noteq> None \<Longrightarrow> num_of a \<le> num_of b \<Longrightarrow> py_le a b"
  by (auto simp: py_le_def num_of_def)

lemma py_le_str:
  "is_str a \<Longrightarrow> is_str b \<Longrightarrow> str_of a \<le> str_of b \<Longrightarrow> py_le a b"
  by (cases a; cases b) (simp_all add: py_le_def)

lemma sort_by_timestamp_sorted:
  assumes "sort_by_timestamp evs = Inr evs'"
  shows "time_ordered evs'"
  using assms
proof (cases rule: sort_by_timestamp_cases)
  case short
  then show ?thesis
    by (cases evs; cases "tl evs") (auto simp: time_ordered_def)
next
  case nums
  have "sorted_wrt (\<lambda>a b. num_of (ev_timestamp a) \<le> num_of (ev_timestamp b)) evs'"
    unfolding nums(2) using sorted_sort_key [of "\<lambda>e. num_of (ev_timestamp e)" evs]
    by (simp add: sorted_map)
  moreover have "py_le (ev_timestamp a) (ev_timestamp b)"
    if "a \<in> set evs'" "b \<in> set evs'" "num_of (ev_timestamp a) \<le> num_of (ev_timestamp b)" for a b
    using that nums by (intro py_le_num) simp_all
  ultimately show ?thesis
    unfolding time_ordered_def by (rule sorted_wrt_mono_rel [rotated]) blast
next
  case strs
  have "sorted_wrt (\<lambda>a b. str_of (ev_timestamp a) \<le> str_of (ev_timestamp b)) evs'"
    unfolding strs(2) using sorted_sort_key [of "\<lambda>e. str_of (ev_timestamp e)" evs]
    by (simp add: sorted_map)
  moreover have "py_le (ev_timestamp a) (ev_timestamp b)"
    if "a \<in> set evs'" "b \<in> set evs'" "str_of (ev_timestamp a) \<le> str_of (ev_timestamp b)" for a b
    using that strs by (intro py_le_str) simp_all
  ultimately show ?thesis
    unfolding time_ordered_def by (rule sorted_wrt_mono_rel [rotated]) blast
qed

lemma sort_by_timestamp_stable:
  assumes "sort_by_timestamp evs = Inr evs'"
  shows "at_time k evs' = at_time k evs \<and> mset evs' = mset evs"
  using assms
proof (cases rule: sort_by_timestamp_cases)
  case short
  then show ?thesis by simp
next
  case nums
  from nums(1) have "\<forall>e \<in> set evs'. py_num (ev_timestamp e) \<noteq> None"
    by (simp add: nums(2))
  from at_time_num [OF this] at_time_num [OF nums(1)] show ?thesis
    by (simp add: nums(2) sort_key_stable)
next
  case strs
  from strs(1) have "\<forall>e \<in> set evs'. is_str (ev_timestamp e)"
    by (simp add: strs(2))
  from at_time_str [OF this] at_time_str [OF strs(1)] show ?thesis
    by (simp add: strs(2) sort_key_stable)
qed

lemma session_journey_events:
  assumes "session_journey G s = Inr j"
  shows "sort_by_timestamp (session_events G s) = Inr (j_events j)"
    and "j_event_count j = length (j_events j)"
  using assms by (auto simp: session_journey_def split: sum.splits)

text \<open>
  C2, as the code has it. Every journey that \<open>extract_user_journeys\<close> returns has its
  events in ascending order of the timestamp, and it is the stable sort of the events of
  one session of the user: the same events, with the events of equal timestamp in the order
  in which the graph lists them as successors of the session. The event id plays no part.
\<close>

theorem journeys_time_ordered_stable:
  assumes "extract_user_journeys fr G user_id max_sessions = Inr js" and "j \<in> set js"
  shows "time_ordered (j_events j)
         \<and> (\<exists>s \<in> set (succ_of G (user_node fr user_id)).
               has_type G ''Session'' s
               \<and> mset (j_events j) = mset (session_events G s)
               \<and> (\<forall>k. at_time k (j_events j) = at_time k (session_events G s)))"
proof -
  from journey_of_session [OF assms] obtain s
    where s: "s \<in> set (succ_of G (user_node fr user_id))" "has_type G ''Session'' s"
      and j: "session_journey G s = Inr j"
    by blast
  from session_journey_events(1) [OF j]
  have sorted: "sort_by_timestamp (session_events G s) = Inr (j_events j)" .
  from sort_by_timestamp_sorted [OF sorted] sort_by_timestamp_stable [OF sorted] s
  show ?thesis by blast
qed

text \<open>The journey of user 1 in \<open>sample_graph\<close> is in order.\<close>

theorem journeys_time_ordered_stable_witness:
  "\<not> isl sample_result
   \<and> length (projr sample_result) = 1
   \<and> time_ordered (j_events (hd (projr sample_result)))
   \<and> map ev_type (j_events (hd (projr sample_result)))
       = [PStr ''page_view'', PStr ''click'', PStr ''purchase'']"
proof -
  have ok: "\<not> isl sample_result" by code_simp
  then have eq: "extract_user_journeys example_repr sample_graph (PInt 1) 10 = Inr (projr sample_result)"
    by (simp add: sample_result_def)
  have len: "length (projr sample_result) = 1" by code_simp
  then have mem: "hd (projr sample_result) \<in> set (projr sample_result)"
    by (cases "projr sample_result") simp_all
  have "time_ordered (j_events (hd (projr sample_result)))"
    by (rule journeys_time_ordered_stable [OF eq mem, THEN conjunct1])
  moreover have "map ev_type (j_events (hd (projr sample_result)))
       = [PStr ''page_view'', PStr ''click'', PStr ''purchase'']"
    by code_simp
  ultimately show ?thesis using ok len by simp
qed

text \<open>
  In \<open>tie_graph\<close> the two events of the session have the same timestamp. The journey lists
  event 2 before event 1, the order in which the session contains them: the order by
  timestamp and then event id does not hold.
\<close>

theorem ties_keep_graph_order:
  "\<not> isl tie_result
   \<and> map (\<lambda>j. map time_and_id (j_events j)) (projr tie_result)
       = [[(PStr ''2026-01-01T10:00:00'', PInt 2), (PStr ''2026-01-01T10:00:00'', PInt 1)]]
   \<and> \<not> list_all (\<lambda>j. time_then_id_ordered (j_events j)) (projr tie_result)"
  by code_simp

section \<open>The event count of a journey\<close>

lemma map_of_set_attr:
  "map_of (map (\<lambda>(m, a). if m = n then (m, a(k \<mapsto> v)) else (m, a)) ns) x =
     (if x = n then map_option (\<lambda>a. a(k \<mapsto> v)) (map_of ns x) else map_of ns x)"
  by (induction ns) (auto simp: fun_upd_def)

lemma has_node_set_attr [simp]: "has_node (set_node_attr n k v G) x = has_node G x"
  by (simp add: has_node_def set_node_attr_def map_of_set_attr)

lemma succ_of_set_attr [simp]: "succ_of (set_node_attr n k v G) = succ_of G"
  by (simp add: set_node_attr_def)

lemma node_attrs_set_attr_other: "x \<noteq> n \<Longrightarrow> node_attrs (set_node_attr n k v G) x = node_attrs G x"
  by (simp add: node_attrs_def set_node_attr_def map_of_set_attr)

lemma node_get_set_attr: "k \<noteq> k' \<Longrightarrow> node_get (set_node_attr n k v G) x k' = node_get G x k'"
  by (simp add: node_get_def node_attrs_def dget_def set_node_attr_def map_of_set_attr
           split: option.splits)

lemma has_type_set_attr:
  "k \<noteq> ''node_type'' \<Longrightarrow> has_type (set_node_attr n k v G) ty x = has_type G ty x"
  by (simp add: has_type_def node_get_set_attr)

lemma event_view_set_attr:
  assumes "has_type G ''Session'' n" and "k \<notin> {''node_type'', ''event_id'', ''event_type'', ''timestamp'', ''page_url''}"
  shows "event_view (set_node_attr n k v G) x = event_view G x"
proof -
  have types: "has_type (set_node_attr n k v G) ty = has_type G ty" for ty
    using assms(2) by (intro ext) (simp add: has_type_set_attr)
  have "node_attrs (set_node_attr n k v G) p = node_attrs G p"
    if "p \<in> set (filter (has_type G ''Product'') (succ_of G x))" for p
  proof -
    from that have "has_type G ''Product'' p" by simp
    with assms(1) have "p \<noteq> n" by (auto simp: has_type_def)
    then show ?thesis by (rule node_attrs_set_attr_other)
  qed
  then have "map (node_attrs (set_node_attr n k v G)) (filter (has_type G ''Product'') (succ_of G x))
             = map (node_attrs G) (filter (has_type G ''Product'') (succ_of G x))"
    by (intro map_cong refl)
  with assms(2) show ?thesis
    by (simp add: event_view_def types node_get_set_attr)
qed

lemma session_journey_set_attr:
  assumes "has_type G ''Session'' n"
  shows "session_journey (set_node_attr n ''event_count'' v G) s = session_journey G s"
proof -
  have "event_view (set_node_attr n ''event_count'' v G) = event_view G"
    using assms by (intro ext event_view_set_attr) simp_all
  moreover have "has_type (set_node_attr n ''event_count'' v G) ty = has_type G ty" for ty
    by (intro ext) (simp add: has_type_set_attr)
  ultimately show ?thesis
    by (simp add: session_journey_def session_events_def node_get_set_attr cong: sum.case_cong)
qed

lemma extract_user_journeys_set_attr:
  assumes "has_type G ''Session'' n"
  shows "extract_user_journeys fr (set_node_attr n ''event_count'' v G) user_id max_sessions
         = extract_user_journeys fr G user_id max_sessions"
proof -
  have "session_journey (set_node_attr n ''event_count'' v G) = session_journey G"
    using assms by (intro ext session_journey_set_attr)
  moreover have "has_type (set_node_attr n ''event_count'' v G) ty = has_type G ty" for ty
    by (intro ext) (simp add: has_type_set_attr)
  ultimately show ?thesis
    by (simp add: extract_user_journeys_def)
qed

text \<open>
  C10. In every journey that \<open>extract_user_journeys\<close> returns, \<open>event_count\<close> is the
  length of \<open>events\<close>, which is the number of successors of type Event of the session
  node. The attribute \<^verbatim>\<open>event_count\<close> stored on a session node is not read: setting it
  to any value leaves the result as it is.
\<close>

theorem event_count_recomputed:
  assumes "extract_user_journeys fr G user_id max_sessions = Inr js"
  shows "(\<forall>j \<in> set js.
            j_event_count j = length (j_events j)
            \<and> (\<exists>s \<in> set (succ_of G (user_node fr user_id)).
                  has_type G ''Session'' s
                  \<and> j_session_id j = node_get G s ''session_id''
                  \<and> j_event_count j = length (filter (has_type G ''Event'') (succ_of G s))))
         \<and> (has_type G ''Session'' n \<longrightarrow>
              extract_user_journeys fr (set_node_attr n ''event_count'' v G) user_id max_sessions
                = Inr js)"
proof (intro conjI ballI impI)
  fix j assume "j \<in> set js"
  from journey_of_session [OF assms this] obtain s
    where s: "s \<in> set (succ_of G (user_node fr user_id))" "has_type G ''Session'' s"
      and j: "session_journey G s = Inr j"
    by blast
  from session_journey_events [OF j] show "j_event_count j = length (j_events j)"
    by simp
  from session_journey_events [OF j] sort_by_timestamp_stable [of "session_events G s" "j_events j"]
  have "mset (j_events j) = mset (session_events G s)" by simp
  then have "length (j_events j) = length (session_events G s)"
    by (rule mset_eq_length)
  with session_journey_events(2) [OF j]
  have "j_event_count j = length (filter (has_type G ''Event'') (succ_of G s))"
    by (simp add: session_events_def)
  moreover from j have "j_session_id j = node_get G s ''session_id''"
    by (auto simp: session_journey_def split: sum.splits)
  ultimately show "\<exists>s \<in> set (succ_of G (user_node fr user_id)).
                  has_type G ''Session'' s
                  \<and> j_session_id j = node_get G s ''session_id''
                  \<and> j_event_count j = length (filter (has_type G ''Event'') (succ_of G s))"
    using s by blast
next
  assume "has_type G ''Session'' n"
  from extract_user_journeys_set_attr [OF this] assms
  show "extract_user_journeys fr (set_node_attr n ''event_count'' v G) user_id max_sessions = Inr js"
    by simp
qed

text \<open>
  The session of \<open>sample_graph\<close> has three events; with a stored count of 99 the journey
  still says three.
\<close>

theorem event_count_recomputed_witness:
  "\<not> isl sample_result
   \<and> map j_event_count (projr sample_result) = [3]
   \<and> list_all (\<lambda>j. j_event_count j = length (j_events j)) (projr sample_result)
   \<and> has_type sample_graph ''Session'' ''session_1''
   \<and> node_get miscounted_graph ''session_1'' ''event_count'' = PInt 99
   \<and> extract_user_journeys example_repr miscounted_graph (PInt 1) 10 = Inr (projr sample_result)"
proof -
  have ok: "\<not> isl sample_result" by code_simp
  then have eq: "extract_user_journeys example_repr sample_graph (PInt 1) 10 = Inr (projr sample_result)"
    by (simp add: sample_result_def)
  have session: "has_type sample_graph ''Session'' ''session_1''" by code_simp
  note inst = event_count_recomputed [OF eq, of "''session_1''" "PInt 99"]
  from inst have "\<forall>j \<in> set (projr sample_result). j_event_count j = length (j_events j)"
    by blast
  then have counts: "list_all (\<lambda>j. j_event_count j = length (j_events j)) (projr sample_result)"
    by (simp add: list_all_iff)
  from inst session
  have same: "extract_user_journeys example_repr miscounted_graph (PInt 1) 10 = Inr (projr sample_result)"
    unfolding miscounted_graph_def by blast
  have "map j_event_count (projr sample_result) = [3]" by code_simp
  moreover have "node_get miscounted_graph ''session_1'' ''event_count'' = PInt 99" by code_simp
  ultimately show ?thesis using ok counts session same by simp
qed

section \<open>Sessions by outcome\<close>

text \<open>
  C6. The docstring of \<open>find_sessions_by_outcome\<close> calls \<open>limit\<close> the maximum number of
  sessions to return. The loop tests the limit after it has appended, so with the limit 0
  the purchase session of \<open>sample_graph\<close> is returned all the same: one session, more
  than the limit.
\<close>

theorem limit_zero_returns_a_session:
  "find_sessions_by_outcome sample_graph ''purchase'' 0 = [''session_1'']
   \<and> \<not> int (length (find_sessions_by_outcome sample_graph ''purchase'' 0)) \<le> 0"
  by code_simp

text \<open>
  The rest of the claim holds: for a limit of at least 1 the list is no longer than the
  limit, and every session returned is a predecessor of type Session of a terminal event of
  the outcome type.
\<close>

lemma find_Some_set: "find P xs = Some x \<Longrightarrow> x \<in> set xs \<and> P x"
  by (induction xs) (auto split: if_splits)

lemma scan_outcome_length:
  assumes "int (length matching) < limit"
  shows "int (length (scan_outcome G outcome limit ns matching)) \<le> limit"
  using assms
proof (induction ns arbitrary: matching)
  case Nil
  then show ?case by simp
next
  case (Cons nd ns)
  obtain n data where nd: "nd = (n, data)" by (cases nd)
  define matching' where "matching' =
      (if has_next G n then matching
       else case find (has_type G ''Session'') (pred_of G n) of
              Some s \<Rightarrow> matching @ [s] | None \<Rightarrow> matching)"
  have grow: "length matching' \<le> Suc (length matching)"
    by (simp add: matching'_def split: option.splits)
  show ?case
  proof (cases "dget data ''node_type'' = PStr ''Event'' \<and> dget data ''event_type'' = PStr outcome")
    case False
    with Cons show ?thesis by (auto simp: nd)
  next
    case True
    show ?thesis
    proof (cases "limit \<le> int (length matching')")
      case stop: True
      with True have "scan_outcome G outcome limit (nd # ns) matching = matching'"
        by (simp add: nd matching'_def)
      with grow Cons.prems show ?thesis by simp
    next
      case continue: False
      with True have "scan_outcome G outcome limit (nd # ns) matching
                      = scan_outcome G outcome limit ns matching'"
        by (simp add: nd matching'_def)
      with Cons.IH [of matching'] continue show ?thesis by simp
    qed
  qed
qed

lemma scan_outcome_members:
  assumes "s \<in> set (scan_outcome G outcome limit ns matching)"
    and "\<forall>(n, data) \<in> set ns. data = node_attrs G n"
  shows "s \<in> set matching \<or> (\<exists>(e, data) \<in> set ns. terminal_outcome G outcome e s)"
  using assms
proof (induction ns arbitrary: matching)
  case Nil
  then show ?case by simp
next
  case (Cons nd ns)
  obtain n data where nd: "nd = (n, data)" by (cases nd)
  with Cons.prems(2) have data: "data = node_attrs G n" by simp
  define matching' where "matching' =
      (if has_next G n then matching
       else case find (has_type G ''Session'') (pred_of G n) of
              Some s \<Rightarrow> matching @ [s] | None \<Rightarrow> matching)"
  from Cons.prems(2) have rest: "\<forall>(n, data) \<in> set ns. data = node_attrs G n" by simp
  show ?case
  proof (cases "dget data ''node_type'' = PStr ''Event'' \<and> dget data ''event_type'' = PStr outcome")
    case False
    with Cons.prems(1) have "s \<in> set (scan_outcome G outcome limit ns matching)"
      by (auto simp: nd split: if_splits)
    from Cons.IH [OF this rest] show ?thesis by auto
  next
    case True
    have new: "s \<in> set matching \<or> terminal_outcome G outcome n s" if "s \<in> set matching'"
      using that True data
      by (auto simp: matching'_def terminal_outcome_def has_type_def node_get_def
               split: if_splits option.splits dest: find_Some_set)
    from True Cons.prems(1)
    have "s \<in> set matching' \<or> s \<in> set (scan_outcome G outcome limit ns matching')"
      by (auto simp: nd matching'_def Let_def split: if_splits)
    then show ?thesis
    proof
      assume "s \<in> set matching'"
      from new [OF this] show ?thesis by (auto simp: nd)
    next
      assume "s \<in> set (scan_outcome G outcome limit ns matching')"
      from Cons.IH [OF this rest] have "s \<in> set matching' \<or> (\<exists>(e, data) \<in> set ns. terminal_outcome G outcome e s)" .
      with new show ?thesis by (auto simp: nd)
    qed
  qed
qed

lemma node_dict_attrs:
  assumes "node_dict G" and "(n, data) \<in> set (nodes_of G)"
  shows "data = node_attrs G n"
  using assms by (simp add: node_dict_def node_attrs_def)

lemma sessions_by_outcome_sound:
  assumes "node_dict G" and "s \<in> set (find_sessions_by_outcome G outcome limit)"
  shows "\<exists>e. has_node G e \<and> terminal_outcome G outcome e s"
proof -
  from assms(1) have "\<forall>(n, data) \<in> set (nodes_of G). data = node_attrs G n"
    by (auto dest: node_dict_attrs)
  from scan_outcome_members [OF assms(2) [unfolded find_sessions_by_outcome_def] this]
  obtain e data where "(e, data) \<in> set (nodes_of G)" "terminal_outcome G outcome e s"
    by auto
  moreover from this(1) assms(1) have "has_node G e"
    by (auto simp: has_node_def node_dict_def)
  ultimately show ?thesis by blast
qed

lemma sessions_by_outcome_length:
  assumes "1 \<le> limit"
  shows "int (length (find_sessions_by_outcome G outcome limit)) \<le> limit"
  unfolding find_sessions_by_outcome_def using assms by (intro scan_outcome_length) simp

section \<open>Backward walks\<close>

lemma backward_walk_length: "length (backward_walk G k n) \<le> k"
  by (induction k arbitrary: n) (simp_all split: option.splits)

lemma mean_count_returns: "\<exists>v. rbind (mean_count cs) (py_round 2) = Inr v"
  by (simp add: mean_count_def py_truediv_def rbind_def float_val_def)

lemma exit_step_hops:
  assumes "list_all (\<lambda>h. h \<le> max_hops) (events_before_exit acc)"
  shows "list_all (\<lambda>h. h \<le> max_hops) (events_before_exit (exit_step G cat n acc))"
  using assms backward_walk_length [of G max_hops n]
  by (simp add: exit_step_def Let_def)

lemma scan_exits_hops:
  assumes "list_all (\<lambda>h. h \<le> max_hops) (events_before_exit acc)"
  shows "list_all (\<lambda>h. h \<le> max_hops) (events_before_exit (scan_exits G cat limit ns acc))"
  using assms
proof (induction ns arbitrary: acc)
  case Nil
  then show ?case by simp
next
  case (Cons nd ns)
  obtain n data where nd: "nd = (n, data)" by (cases nd)
  from Cons.prems have step: "list_all (\<lambda>h. h \<le> max_hops) (events_before_exit (exit_step G cat n acc))"
    by (rule exit_step_hops)
  from Cons.IH [OF Cons.prems] Cons.IH [OF step] step show ?case
    by (simp add: nd Let_def)
qed

text \<open>
  C7. Both scanners walk backward with \<open>backward_walk G max_hops\<close>, a recursion on the hop
  counter that starts at 20 and does not look at the shape of the graph: the walk visits
  at most 20 events on every graph, cyclic or not. Every hop count that
  \<open>find_exit_points_after_category\<close> records is at most 20, and the function returns a
  report. \<open>find_products_before_purchase\<close> is a recursion over the node list around the
  same walk.
\<close>

theorem backward_walks_bounded:
  "max_hops = 20
   \<and> length (backward_walk G max_hops n) \<le> max_hops
   \<and> list_all (\<lambda>h. h \<le> max_hops) (exit_hop_counts G cat limit)
   \<and> (\<exists>r. find_exit_points_after_category G cat limit = Inr r)"
proof (intro conjI)
  show "max_hops = 20" by (simp add: max_hops_def)
  show "length (backward_walk G max_hops n) \<le> max_hops" by (rule backward_walk_length)
  show "list_all (\<lambda>h. h \<le> max_hops) (exit_hop_counts G cat limit)"
    unfolding exit_hop_counts_def by (rule scan_exits_hops) simp
  define acc where "acc = scan_exits G cat limit (nodes_of G)
      \<lparr>exit_after_category = 0, exit_patterns = [], events_before_exit = []\<rparr>"
  from mean_count_returns [of "events_before_exit acc"] obtain v
    where "rbind (mean_count (events_before_exit acc)) (py_round 2) = Inr v" by blast
  then show "\<exists>r. find_exit_points_after_category G cat limit = Inr r"
    by (simp add: find_exit_points_after_category_def Let_def acc_def rbind_def)
qed

text \<open>
  In \<open>cycle_graph\<close> the \<^verbatim>\<open>NEXT\<close> edges form a cycle of two events. The walk from the exit
  goes round it and stops after 20 hops.
\<close>

theorem backward_walks_bounded_witness:
  "length (backward_walk cycle_graph max_hops ''event_1'') = 20
   \<and> exit_hop_counts cycle_graph ''Electronics'' 50 = [20]
   \<and> \<not> isl (find_exit_points_after_category cycle_graph ''Electronics'' 50)"
proof -
  note inst = backward_walks_bounded [of cycle_graph "''event_1''" "''Electronics''" 50]
  from inst obtain r where "find_exit_points_after_category cycle_graph ''Electronics'' 50 = Inr r"
    by blast
  then have "\<not> isl (find_exit_points_after_category cycle_graph ''Electronics'' 50)"
    by simp
  moreover have "length (backward_walk cycle_graph max_hops ''event_1'') = 20" by code_simp
  moreover have "exit_hop_counts cycle_graph ''Electronics'' 50 = [20]" by code_simp
  ultimately show ?thesis by simp
qed

end
